theory Spec2Isabelle
  imports Main "HOL-Library.Word"
begin

unbundle bit_operations_syntax

section \<open>The file system as the parameter store sees it\<close>

text \<open>
  \<^verbatim>\<open>selfdrive/common/params.cc\<close> keeps one file per parameter under
  \<^verbatim>\<open>params_path + "/d/" + key\<close> and reaches the disk only through system calls.
  The file system is a finite map from path strings to nodes. A path is the string the
  code builds by concatenation and is compared as a string: the model does not resolve
  \<^verbatim>\<open>.\<close>, \<^verbatim>\<open>..\<close> or symbolic links inside a path. The kernel does: it reads
  \<^verbatim>\<open>d/./DongleId\<close> as \<^verbatim>\<open>d/DongleId\<close>, and neither \<^verbatim>\<open>put\<close> nor
  \<^verbatim>\<open>remove\<close> checks the key. The map therefore stands for the disk only where the
  key is a plain file name, as the identifiers of the registry are, and the round
  trip, the frame property and the selectivity of \<^verbatim>\<open>clearAll\<close> are stated for such
  keys.

  Whether a system call succeeds is decided by the operating system. Each operation
  therefore takes an environment record holding the outcome of every call it makes;
  the effect of a successful call on the map is fixed by the model.
\<close>

datatype node = File string | Dir | Symlink string

text \<open>
  A key that is one path component: a non-empty C string without \<^verbatim>\<open>/\<close> that is
  neither \<^verbatim>\<open>.\<close> nor \<^verbatim>\<open>..\<close>.
\<close>

definition plain_file_name :: "string \<Rightarrow> bool" where
  "plain_file_name key =
     (key \<noteq> [] \<and> key \<noteq> ''.'' \<and> key \<noteq> ''..'' \<and> CHR ''/'' \<notin> set key \<and> CHR 0x00 \<notin> set key)"

type_synonym fs = "string \<Rightarrow> node option"

datatype sysres = Ok | Err int

definition EEXIST :: int where
  "EEXIST = 17"

definition ENOENT :: int where
  "ENOENT = 2"

text \<open>The integer a system call returns: 0 on success, -1 on failure.\<close>

fun rc :: "sysres \<Rightarrow> int" where
  "rc Ok = 0"
| "rc (Err e) = - 1"

text \<open>\<^verbatim>\<open>unlink(path)\<close>: not-found is a failure; otherwise the environment decides.\<close>

definition sys_unlink :: "sysres \<Rightarrow> string \<Rightarrow> fs \<Rightarrow> sysres \<times> fs" where
  "sys_unlink fault path fs =
     (case fs path of
        None \<Rightarrow> (Err ENOENT, fs)
      | Some n \<Rightarrow> (case fault of Ok \<Rightarrow> (Ok, fs(path := None)) | Err e \<Rightarrow> (Err e, fs)))"

text \<open>\<^verbatim>\<open>rename(old, new)\<close>: on success the node moves and replaces what was at \<open>new\<close>.\<close>

definition sys_rename :: "sysres \<Rightarrow> string \<Rightarrow> string \<Rightarrow> fs \<Rightarrow> sysres \<times> fs" where
  "sys_rename fault old new fs =
     (case fs old of
        None \<Rightarrow> (Err ENOENT, fs)
      | Some n \<Rightarrow>
          (case fault of
             Err e \<Rightarrow> (Err e, fs)
           | Ok \<Rightarrow> (Ok, if old = new then fs else (fs(new \<mapsto> n))(old := None))))"

text \<open>
  \<^verbatim>\<open>mkstemp(template)\<close> and \<^verbatim>\<open>mkdtemp(template)\<close> replace the six trailing
  \<^verbatim>\<open>X\<close> of the template in place. The environment supplies the six characters, or
  \<open>None\<close> when the call fails; a name that is already taken is never returned.
\<close>

definition fill_template :: "string \<Rightarrow> string \<Rightarrow> string" where
  "fill_template template s = take (length template - 6) template @ s"

definition sys_mktemp :: "node \<Rightarrow> string option \<Rightarrow> string \<Rightarrow> fs \<Rightarrow> (string \<times> fs) option" where
  "sys_mktemp fresh choice template fs =
     (case choice of
        None \<Rightarrow> None
      | Some s \<Rightarrow>
          (if length s = 6
           then (case fs (fill_template template s) of
                   None \<Rightarrow> Some (fill_template template s, fs(fill_template template s \<mapsto> fresh))
                 | Some n \<Rightarrow> None)
           else None))"

definition sys_mkstemp :: "string option \<Rightarrow> string \<Rightarrow> fs \<Rightarrow> (string \<times> fs) option" where
  "sys_mkstemp = sys_mktemp (File [])"

definition sys_mkdtemp :: "string option \<Rightarrow> string \<Rightarrow> fs \<Rightarrow> (string \<times> fs) option" where
  "sys_mkdtemp = sys_mktemp Dir"

text \<open>\<^verbatim>\<open>symlink(target, linkpath)\<close> fails when \<open>linkpath\<close> exists.\<close>

definition sys_symlink :: "sysres \<Rightarrow> string \<Rightarrow> string \<Rightarrow> fs \<Rightarrow> sysres \<times> fs" where
  "sys_symlink fault target linkpath fs =
     (case fs linkpath of
        Some n \<Rightarrow> (Err EEXIST, fs)
      | None \<Rightarrow> (case fault of Ok \<Rightarrow> (Ok, fs(linkpath \<mapsto> Symlink target)) | Err e \<Rightarrow> (Err e, fs)))"

text \<open>
  \<^verbatim>\<open>write(fd, value, value_size)\<close> on the freshly created temporary file. The
  environment gives the return value \<open>n\<close>: negative for an error, otherwise the number
  of bytes that reached the file (at most \<open>value_size\<close>).
\<close>

definition sys_write :: "int \<Rightarrow> string \<Rightarrow> string \<Rightarrow> fs \<Rightarrow> int \<times> fs" where
  "sys_write n path data fs =
     (if n < 0 then (- 1, fs)
      else (int (length (take (nat n) data)), fs(path \<mapsto> File (take (nat n) data))))"

section \<open>Helpers of the anonymous namespace\<close>

record dir_env =
  de_open :: sysres
  de_fsync :: sysres
  de_close :: sysres

text \<open>\<^verbatim>\<open>fsync_dir\<close> (lines 30-42): open the directory, fsync it, close it.\<close>

definition fsync_dir :: "dir_env \<Rightarrow> string \<Rightarrow> fs \<Rightarrow> int" where
  "fsync_dir env path fs =
     (case fs path of
        None \<Rightarrow> - 1
      | Some n \<Rightarrow>
          (case de_open env of
             Err e \<Rightarrow> - 1
           | Ok \<Rightarrow>
               (let result = rc (de_fsync env);
                    result_close = rc (de_close env)
                in if result_close < 0 then result_close else result)))"

text \<open>
  \<^verbatim>\<open>FileLock::lock\<close> (lines 89-98) opens the lock file with \<^verbatim>\<open>O_CREAT\<close>, which
  creates it when it is missing. A failure to open or to \<^verbatim>\<open>flock\<close> is only logged and
  the caller goes on. The model is sequential, so the only effect left is the creation
  of the lock file.
\<close>

definition FileLock_lock :: "sysres \<Rightarrow> string \<Rightarrow> fs \<Rightarrow> fs" where
  "FileLock_lock open_res fn fs =
     (case open_res of
        Err e \<Rightarrow> fs
      | Ok \<Rightarrow> (case fs fn of None \<Rightarrow> fs(fn \<mapsto> File []) | Some n \<Rightarrow> fs))"

text \<open>
  Modelled from the spec: \<^verbatim>\<open>util::read_file\<close> is defined in
  \<^verbatim>\<open>selfdrive/common/util.cc\<close>, which is not among the sources. The spec says a read
  gives the file's full contents and that a missing file reads as the empty string.
\<close>

definition read_file :: "fs \<Rightarrow> string \<Rightarrow> string" where
  "read_file fs fn = (case fs fn of Some (File bytes) \<Rightarrow> bytes | _ \<Rightarrow> [])"

text \<open>
  Where a symbolic link at \<open>link\<close> leads: an absolute target is taken as it is, a
  relative one is read from the directory that holds the link.
\<close>

definition link_target :: "string \<Rightarrow> string \<Rightarrow> string" where
  "link_target link target =
     (case target of
        [] \<Rightarrow> target
      | c # cs \<Rightarrow>
          (if c = CHR ''/'' then target
           else if CHR ''/'' \<in> set link
           then rev (tl (dropWhile (\<lambda>x. x \<noteq> CHR ''/'') (rev link))) @ ''/'' @ target
           else target))"

text \<open>
  Whether a path leads to a node when symbolic links are followed. The kernel gives up
  after 40 links.
\<close>

fun leads_to_node :: "nat \<Rightarrow> fs \<Rightarrow> string \<Rightarrow> bool" where
  "leads_to_node 0 fs fn = False"
| "leads_to_node (Suc n) fs fn =
     (case fs fn of
        None \<Rightarrow> False
      | Some (Symlink target) \<Rightarrow> leads_to_node n fs (link_target fn target)
      | Some nd \<Rightarrow> True)"

text \<open>
  Modelled from the spec: \<^verbatim>\<open>util::file_exists\<close> (\<^verbatim>\<open>util.cc\<close>, not among the
  sources) tells whether the path exists. It asks the kernel, which follows symbolic
  links: a link whose target is missing does not exist for it.
\<close>

definition file_exists :: "fs \<Rightarrow> string \<Rightarrow> bool" where
  "file_exists fs fn = leads_to_node 40 fs fn"

section \<open>put and remove\<close>

record put_env =
  pe_mkstemp :: "string option"
  pe_write :: int
  pe_fsync :: sysres
  pe_lock_open :: sysres
  pe_rename :: sysres
  pe_dir :: dir_env
  pe_unlink :: sysres

text \<open>
  The \<^verbatim>\<open>do { ... } while (false)\<close> block of \<^verbatim>\<open>Params::put\<close> (lines 352-373):
  every \<^verbatim>\<open>break\<close> leaves with the current \<open>result\<close>. The payload is the byte
  string \<open>val\<close>, and \<^verbatim>\<open>value_size\<close> is its length. The test
  \<^verbatim>\<open>bytes_written < 0 || (size_t)bytes_written != value_size\<close> is written as two
  nested tests with the same outcome, -20.
\<close>

definition put_steps :: "put_env \<Rightarrow> string \<Rightarrow> fs \<Rightarrow> string \<Rightarrow> string \<Rightarrow> string \<Rightarrow> int \<times> fs" where
  "put_steps env params_path fs tmp_path key val =
     (case sys_write (pe_write env) tmp_path val fs of
        (bytes_written, fs1) \<Rightarrow>
          (if bytes_written < 0 then (- 20, fs1)
           else if nat bytes_written = length val
           then (if rc (pe_fsync env) < 0 then (rc (pe_fsync env), fs1)
                 else (case sys_rename (pe_rename env) tmp_path (params_path @ ''/d/'' @ key)
                              (FileLock_lock (pe_lock_open env) (params_path @ ''/.lock'') fs1) of
                         (r, fs2) \<Rightarrow>
                           (if rc r < 0 then (rc r, fs2)
                            else (fsync_dir (pe_dir env) (params_path @ ''/d'') fs2, fs2))))
           else (- 20, fs1)))"

text \<open>
  \<^verbatim>\<open>Params::put\<close> (lines 340-378). A failing \<^verbatim>\<open>mkstemp\<close> returns -1 at once;
  otherwise the temporary file is closed and unlinked on the way out, whatever the
  block returned.
\<close>

definition Params_put :: "put_env \<Rightarrow> string \<Rightarrow> fs \<Rightarrow> string \<Rightarrow> string \<Rightarrow> int \<times> fs" where
  "Params_put env params_path fs key val =
     (case sys_mkstemp (pe_mkstemp env) (params_path @ ''/.tmp_value_XXXXXX'') fs of
        None \<Rightarrow> (- 1, fs)
      | Some (tmp_path, fs1) \<Rightarrow>
          (case put_steps env params_path fs1 tmp_path key val of
             (result, fs2) \<Rightarrow> (result, snd (sys_unlink (pe_unlink env) tmp_path fs2))))"

record remove_env =
  re_lock_open :: sysres
  re_unlink :: sysres
  re_dir :: dir_env

text \<open>\<^verbatim>\<open>Params::remove\<close> (lines 380-392).\<close>

definition Params_remove :: "remove_env \<Rightarrow> string \<Rightarrow> fs \<Rightarrow> string \<Rightarrow> int \<times> fs" where
  "Params_remove env params_path fs key =
     (case sys_unlink (re_unlink env) (params_path @ ''/d/'' @ key)
             (FileLock_lock (re_lock_open env) (params_path @ ''/.lock'') fs) of
        (r, fs1) \<Rightarrow>
          (if rc r = 0 then (fsync_dir (re_dir env) (params_path @ ''/d'') fs1, fs1)
           else (rc r, fs1)))"

section \<open>get\<close>

text \<open>
  The process state that \<^verbatim>\<open>Params::get\<close> touches: the flag \<^verbatim>\<open>params_do_exit\<close>,
  the handlers installed for \<^verbatim>\<open>SIGINT\<close> and \<^verbatim>\<open>SIGTERM\<close>, and a ghost counter of
  the calls of \<^verbatim>\<open>util::sleep_for(100)\<close>, which measures time in polling intervals.
\<close>

datatype signum = SIGINT | SIGTERM

datatype handler = SIG_DFL | SIG_IGN | other_handler nat | params_sig_handler

record proc =
  params_do_exit :: bool
  sigint_handler :: handler
  sigterm_handler :: handler
  sleeps :: nat

text \<open>
  What the rest of the system does while the caller polls: it delivers a signal to the
  process, or another process sets or deletes a file.
\<close>

datatype event = Signal signum | FsSet string "node option"

definition installed :: "proc \<Rightarrow> signum \<Rightarrow> handler" where
  "installed p s = (case s of SIGINT \<Rightarrow> sigint_handler p | SIGTERM \<Rightarrow> sigterm_handler p)"

text \<open>
  \<^verbatim>\<open>std::signal(sig, h)\<close> installs \<open>h\<close> and returns the handler it replaces.
\<close>

definition std_signal :: "signum \<Rightarrow> handler \<Rightarrow> proc \<Rightarrow> handler \<times> proc" where
  "std_signal s h p =
     (installed p s,
      case s of SIGINT \<Rightarrow> p\<lparr>sigint_handler := h\<rparr> | SIGTERM \<Rightarrow> p\<lparr>sigterm_handler := h\<rparr>)"

text \<open>
  Delivery of a signal runs the installed handler. \<^verbatim>\<open>params_sig_handler\<close>
  (lines 26-28) sets the flag; the flag is private to the file, so no other handler
  changes it.
\<close>

fun occur :: "event \<Rightarrow> proc \<times> fs \<Rightarrow> proc \<times> fs" where
  "occur (Signal s) (p, fs) =
     (case installed p s of
        params_sig_handler \<Rightarrow> (p\<lparr>params_do_exit := True\<rparr>, fs)
      | _ \<Rightarrow> (p, fs))"
| "occur (FsSet path n) (p, fs) = (p, fs(path := n))"

definition occur_all :: "event list \<Rightarrow> proc \<times> fs \<Rightarrow> proc \<times> fs" where
  "occur_all evs st = fold occur evs st"

text \<open>
  The polling loop of the blocking branch (lines 405-410). \<open>sched i\<close> lists what
  happens during the \<open>i\<close>-th pass through the loop body, that is, until the sleep of
  that pass is over; the flag is looked at again only after it. The loop has no bound
  of its own, so the model is a partial function: \<open>None\<close> means that it never returns.
\<close>

partial_function (option) poll ::
  "(nat \<Rightarrow> event list) \<Rightarrow> string \<Rightarrow> nat \<Rightarrow> string \<Rightarrow> proc \<Rightarrow> fs \<Rightarrow> (string \<times> proc) option" where
  "poll sched path i val p fs =
     (if params_do_exit p then Some (val, p)
      else if read_file fs path = []
      then (case occur_all (sched i) (p\<lparr>sleeps := Suc (sleeps p)\<rparr>, fs) of
              (p1, fs1) \<Rightarrow> poll sched path (Suc i) (read_file fs path) p1 fs1)
      else Some (read_file fs path, p))"

text \<open>
  \<^verbatim>\<open>Params::get\<close> (lines 394-416). \<open>pre\<close> lists what happens between the
  installation of the handlers and the first test of the flag. The result pairs the
  returned string with the process state the call leaves behind.
\<close>

definition Params_get ::
  "event list \<Rightarrow> (nat \<Rightarrow> event list) \<Rightarrow> string \<Rightarrow> proc \<Rightarrow> fs \<Rightarrow> string \<Rightarrow> bool
     \<Rightarrow> (string \<times> proc) option" where
  "Params_get pre sched params_path p fs key block =
     (if block
      then (case std_signal SIGINT params_sig_handler (p\<lparr>params_do_exit := False\<rparr>) of
              (prev_handler_sigint, p1) \<Rightarrow>
                (case std_signal SIGTERM params_sig_handler p1 of
                   (prev_handler_sigterm, p2) \<Rightarrow>
                     (case occur_all pre (p2, fs) of
                        (p3, fs3) \<Rightarrow>
                          (case poll sched (params_path @ ''/d/'' @ key) 0 [] p3 fs3 of
                             None \<Rightarrow> None
                           | Some (val, p4) \<Rightarrow>
                               Some (val,
                                     snd (std_signal SIGTERM prev_handler_sigterm
                                            (snd (std_signal SIGINT prev_handler_sigint p4))))))))
      else Some (read_file fs (params_path @ ''/d/'' @ key), p))"

section \<open>The key registry\<close>

text \<open>
  Modelled from the spec: \<^verbatim>\<open>enum ParamKeyType\<close> is declared in
  \<^verbatim>\<open>selfdrive/common/params.h\<close>, which is not among the sources. The spec calls its
  members lifecycle tags that are combined by bitwise OR into a category mask, so each
  tag is one bit of its own. (The member \<^verbatim>\<open>ALL\<close> does not occur in \<^verbatim>\<open>params.cc\<close>.)
\<close>

definition PERSISTENT :: "32 word" where
  "PERSISTENT = 0x02"

definition CLEAR_ON_MANAGER_START :: "32 word" where
  "CLEAR_ON_MANAGER_START = 0x04"

definition CLEAR_ON_PANDA_DISCONNECT :: "32 word" where
  "CLEAR_ON_PANDA_DISCONNECT = 0x08"

definition CLEAR_ON_IGNITION_ON :: "32 word" where
  "CLEAR_ON_IGNITION_ON = 0x10"

definition CLEAR_ON_IGNITION_OFF :: "32 word" where
  "CLEAR_ON_IGNITION_OFF = 0x20"

definition DONT_LOG :: "32 word" where
  "DONT_LOG = 0x40"

text \<open>
  The table \<^verbatim>\<open>keys\<close> (lines 107-319), an
  \<^verbatim>\<open>std::unordered_map<std::string, uint32_t>\<close>, as an association list in the order of
  the initialiser. It is a mutable global of the file, so the operations that use it
  take the current registry as an argument.
\<close>

definition keys :: "(string \<times> 32 word) list" where
  "keys = [
    (''AccessToken'', CLEAR_ON_MANAGER_START OR DONT_LOG),
    (''AthenadPid'', PERSISTENT),
    (''BootedOnroad'', CLEAR_ON_MANAGER_START OR CLEAR_ON_IGNITION_OFF),
    (''CalibrationParams'', PERSISTENT),
    (''CarBatteryCapacity'', PERSISTENT),
    (''CarParams'', CLEAR_ON_MANAGER_START OR CLEAR_ON_PANDA_DISCONNECT OR CLEAR_ON_IGNITION_ON),
    (''CarParamsCache'', CLEAR_ON_MANAGER_START OR CLEAR_ON_PANDA_DISCONNECT),
    (''CarVin'', CLEAR_ON_MANAGER_START OR CLEAR_ON_PANDA_DISCONNECT OR CLEAR_ON_IGNITION_ON),
    (''CommunityFeaturesToggle'', PERSISTENT),
    (''CompletedTrainingVersion'', PERSISTENT),
    (''ControlsReady'', CLEAR_ON_MANAGER_START OR CLEAR_ON_PANDA_DISCONNECT OR CLEAR_ON_IGNITION_ON),
    (''CurrentRoute'', CLEAR_ON_MANAGER_START OR CLEAR_ON_IGNITION_ON),
    (''DisablePowerDown'', PERSISTENT),
    (''DisableRadar_Allow'', PERSISTENT),
    (''DisableRadar'', PERSISTENT),
    (''DisableUpdates'', PERSISTENT),
    (''DongleId'', PERSISTENT),
    (''DoUninstall'', CLEAR_ON_MANAGER_START),
    (''EnableWideCamera'', CLEAR_ON_MANAGER_START),
    (''EndToEndToggle'', PERSISTENT),
    (''ForcePowerDown'', CLEAR_ON_MANAGER_START),
    (''GitBranch'', PERSISTENT),
    (''GitCommit'', PERSISTENT),
    (''GitDiff'', PERSISTENT),
    (''GithubSshKeys'', PERSISTENT),
    (''GithubUsername'', PERSISTENT),
    (''GitRemote'', PERSISTENT),
    (''GsmApn'', PERSISTENT),
    (''GsmRoaming'', PERSISTENT),
    (''HardwareSerial'', PERSISTENT),
    (''HasAcceptedTerms'', PERSISTENT),
    (''IMEI'', PERSISTENT),
    (''InstallDate'', PERSISTENT),
    (''IsDriverViewEnabled'', CLEAR_ON_MANAGER_START),
    (''IsLdwEnabled'', PERSISTENT),
    (''IsMetric'', PERSISTENT),
    (''IsOffroad'', CLEAR_ON_MANAGER_START),
    (''IsOnroad'', PERSISTENT),
    (''IsRHD'', PERSISTENT),
    (''IsTakingSnapshot'', CLEAR_ON_MANAGER_START),
    (''IsUpdateAvailable'', CLEAR_ON_MANAGER_START),
    (''JoystickDebugMode'', CLEAR_ON_MANAGER_START OR CLEAR_ON_IGNITION_OFF),
    (''LastAthenaPingTime'', CLEAR_ON_MANAGER_START),
    (''LastGPSPosition'', PERSISTENT),
    (''LastUpdateException'', PERSISTENT),
    (''LastUpdateTime'', PERSISTENT),
    (''LiveParameters'', PERSISTENT),
    (''NavDestination'', CLEAR_ON_MANAGER_START OR CLEAR_ON_IGNITION_OFF),
    (''NavSettingTime24h'', PERSISTENT),
    (''OpenpilotEnabledToggle'', PERSISTENT),
    (''PandaHeartbeatLost'', CLEAR_ON_MANAGER_START OR CLEAR_ON_IGNITION_OFF),
    (''Passive'', PERSISTENT),
    (''PrimeRedirected'', PERSISTENT),
    (''RecordFront'', PERSISTENT),
    (''RecordFrontLock'', PERSISTENT),
    (''ReleaseNotes'', PERSISTENT),
    (''ShouldDoUpdate'', CLEAR_ON_MANAGER_START),
    (''SshEnabled'', PERSISTENT),
    (''SubscriberInfo'', PERSISTENT),
    (''TermsVersion'', PERSISTENT),
    (''Timezone'', PERSISTENT),
    (''TrainingVersion'', PERSISTENT),
    (''UpdateAvailable'', CLEAR_ON_MANAGER_START),
    (''UpdateFailedCount'', CLEAR_ON_MANAGER_START),
    (''UploadRaw'', PERSISTENT),
    (''Version'', PERSISTENT),
    (''VisionRadarToggle'', PERSISTENT),
    (''ApiCache_Device'', PERSISTENT),
    (''ApiCache_DriveStats'', PERSISTENT),
    (''ApiCache_NavDestinations'', PERSISTENT),
    (''ApiCache_Owner'', PERSISTENT),
    (''Offroad_ChargeDisabled'', CLEAR_ON_MANAGER_START OR CLEAR_ON_PANDA_DISCONNECT),
    (''Offroad_ConnectivityNeeded'', CLEAR_ON_MANAGER_START),
    (''Offroad_ConnectivityNeededPrompt'', CLEAR_ON_MANAGER_START),
    (''Offroad_HardwareUnsupported'', CLEAR_ON_MANAGER_START),
    (''Offroad_InvalidTime'', CLEAR_ON_MANAGER_START),
    (''Offroad_IsTakingSnapshot'', CLEAR_ON_MANAGER_START),
    (''Offroad_NeosUpdate'', CLEAR_ON_MANAGER_START),
    (''Offroad_StorageMissing'', CLEAR_ON_MANAGER_START),
    (''Offroad_PandaFirmwareMismatch'', CLEAR_ON_MANAGER_START OR CLEAR_ON_PANDA_DISCONNECT),
    (''Offroad_TemperatureTooHigh'', CLEAR_ON_MANAGER_START),
    (''Offroad_UnofficialHardware'', CLEAR_ON_MANAGER_START),
    (''Offroad_UpdateFailed'', CLEAR_ON_MANAGER_START),
    (''GitCommitRemote'', PERSISTENT),
    (''IsOpenpilotViewEnabled'', CLEAR_ON_MANAGER_START),
    (''OpkrAutoShutdown'', PERSISTENT),
    (''OpkrForceShutdown'', PERSISTENT),
    (''OpkrForceShutdownTrigger'', PERSISTENT),
    (''OpkrAutoScreenOff'', PERSISTENT),
    (''OpkrUIBrightness'', PERSISTENT),
    (''OpkrUIVolumeBoost'', PERSISTENT),
    (''OpkrEnableDriverMonitoring'', PERSISTENT),
    (''OpkrEnableLogger'', PERSISTENT),
    (''OpkrEnableGetoffAlert'', PERSISTENT),
    (''OpkrAutoResume'', PERSISTENT),
    (''OpkrVariableCruise'', PERSISTENT),
    (''OpkrLaneChangeSpeed'', PERSISTENT),
    (''OpkrAutoLaneChangeDelay'', PERSISTENT),
    (''OpkrSteerAngleCorrection'', PERSISTENT),
    (''PutPrebuiltOn'', PERSISTENT),
    (''LdwsCarFix'', PERSISTENT),
    (''LateralControlMethod'', PERSISTENT),
    (''CruiseStatemodeSelInit'', PERSISTENT),
    (''OuterLoopGain'', PERSISTENT),
    (''InnerLoopGain'', PERSISTENT),
    (''TimeConstant'', PERSISTENT),
    (''ActuatorEffectiveness'', PERSISTENT),
    (''Scale'', PERSISTENT),
    (''LqrKi'', PERSISTENT),
    (''DcGain'', PERSISTENT),
    (''IgnoreZone'', PERSISTENT),
    (''PidKp'', PERSISTENT),
    (''PidKi'', PERSISTENT),
    (''PidKd'', PERSISTENT),
    (''PidKf'', PERSISTENT),
    (''CameraOffsetAdj'', PERSISTENT),
    (''PathOffsetAdj'', PERSISTENT),
    (''SteerRatioAdj'', PERSISTENT),
    (''SteerRatioMaxAdj'', PERSISTENT),
    (''SteerActuatorDelayAdj'', PERSISTENT),
    (''SteerRateCostAdj'', PERSISTENT),
    (''SteerLimitTimerAdj'', PERSISTENT),
    (''TireStiffnessFactorAdj'', PERSISTENT),
    (''SteerMaxAdj'', PERSISTENT),
    (''SteerMaxBaseAdj'', PERSISTENT),
    (''SteerDeltaUpAdj'', PERSISTENT),
    (''SteerDeltaUpBaseAdj'', PERSISTENT),
    (''SteerDeltaDownAdj'', PERSISTENT),
    (''SteerDeltaDownBaseAdj'', PERSISTENT),
    (''SteerMaxvAdj'', PERSISTENT),
    (''OpkrBatteryChargingControl'', PERSISTENT),
    (''OpkrBatteryChargingMin'', PERSISTENT),
    (''OpkrBatteryChargingMax'', PERSISTENT),
    (''LeftCurvOffsetAdj'', PERSISTENT),
    (''RightCurvOffsetAdj'', PERSISTENT),
    (''DebugUi1'', PERSISTENT),
    (''DebugUi2'', PERSISTENT),
    (''LongLogDisplay'', PERSISTENT),
    (''OpkrBlindSpotDetect'', PERSISTENT),
    (''OpkrMaxAngleLimit'', PERSISTENT),
    (''OpkrSpeedLimitOffset'', PERSISTENT),
    (''OpkrLiveSteerRatio'', PERSISTENT),
    (''OpkrVariableSteerMax'', PERSISTENT),
    (''OpkrVariableSteerDelta'', PERSISTENT),
    (''FingerprintTwoSet'', PERSISTENT),
    (''OpkrDrivingRecord'', PERSISTENT),
    (''OpkrTurnSteeringDisable'', PERSISTENT),
    (''CarModel'', PERSISTENT),
    (''OpkrHotspotOnBoot'', PERSISTENT),
    (''OpkrSSHLegacy'', PERSISTENT),
    (''CruiseOverMaxSpeed'', PERSISTENT),
    (''JustDoGearD'', PERSISTENT),
    (''LanelessMode'', PERSISTENT),
    (''ComIssueGone'', PERSISTENT),
    (''MaxSteer'', PERSISTENT),
    (''MaxRTDelta'', PERSISTENT),
    (''MaxRateUp'', PERSISTENT),
    (''MaxRateDown'', PERSISTENT),
    (''SteerThreshold'', PERSISTENT),
    (''RecordingCount'', PERSISTENT),
    (''RecordingQuality'', PERSISTENT),
    (''CruiseGapAdjust'', PERSISTENT),
    (''AutoEnable'', PERSISTENT),
    (''AutoEnableSpeed'', PERSISTENT),
    (''CruiseAutoRes'', PERSISTENT),
    (''AutoResOption'', PERSISTENT),
    (''AutoResCondition'', PERSISTENT),
    (''SteerWindDown'', PERSISTENT),
    (''OpkrMonitoringMode'', PERSISTENT),
    (''OpkrMonitorEyesThreshold'', PERSISTENT),
    (''OpkrMonitorNormalEyesThreshold'', PERSISTENT),
    (''OpkrMonitorBlinkThreshold'', PERSISTENT),
    (''MadModeEnabled'', PERSISTENT),
    (''CommaStockUI'', PERSISTENT),
    (''OpkrEnableUploader'', PERSISTENT),
    (''OpkrMapEnable'', CLEAR_ON_MANAGER_START),
    (''WhitePandaSupport'', PERSISTENT),
    (''SteerWarningFix'', PERSISTENT),
    (''OpkrRunNaviOnBoot'', PERSISTENT),
    (''CruiseGapNow'', PERSISTENT),
    (''CruiseGap1'', PERSISTENT),
    (''CruiseGap2'', PERSISTENT),
    (''CruiseGap3'', PERSISTENT),
    (''CruiseGap4'', PERSISTENT),
    (''DynamicTR'', PERSISTENT),
    (''OpkrBattLess'', PERSISTENT),
    (''LCTimingFactorUD'', PERSISTENT),
    (''LCTimingFactor30'', PERSISTENT),
    (''LCTimingFactor60'', PERSISTENT),
    (''LCTimingFactor80'', PERSISTENT),
    (''LCTimingFactor110'', PERSISTENT),
    (''OpkrUIBrightnessOff'', PERSISTENT),
    (''LCTimingFactorEnable'', PERSISTENT),
    (''SafetyCamDecelDistGain'', PERSISTENT),
    (''OpkrLiveTunePanelEnable'', PERSISTENT),
    (''KRDateShow'', PERSISTENT),
    (''KRTimeShow'', PERSISTENT),
    (''RadarLongHelper'', PERSISTENT),
    (''GitPullOnBoot'', PERSISTENT),
    (''LiveSteerRatioPercent'', PERSISTENT),
    (''StoppingDistAdj'', PERSISTENT),
    (''ShowError'', PERSISTENT),
    (''CommaLong'', PERSISTENT),
    (''AutoResLimitTime'', PERSISTENT),
    (''VCurvSpeed30'', PERSISTENT),
    (''VCurvSpeed50'', PERSISTENT),
    (''VCurvSpeed70'', PERSISTENT),
    (''VCurvSpeed90'', PERSISTENT),
    (''VCurvSpeedUD'', PERSISTENT),
    (''OCurvOffset'', PERSISTENT),
    (''StockNaviSpeedEnabled'', PERSISTENT)]"

text \<open>\<^verbatim>\<open>Params::checkKey\<close> (lines 332-334) looks the key up with \<^verbatim>\<open>find\<close>.\<close>

definition Params_checkKey :: "(string \<times> 32 word) list \<Rightarrow> string \<Rightarrow> bool" where
  "Params_checkKey ks key = (case map_of ks key of None \<Rightarrow> False | Some ktype \<Rightarrow> True)"

text \<open>
  \<^verbatim>\<open>Params::getKeyType\<close> (lines 336-338) reads \<^verbatim>\<open>keys[key]\<close>. On an
  \<^verbatim>\<open>unordered_map\<close>, \<^verbatim>\<open>operator[]\<close> inserts the key with a value-initialised
  mask (zero) when it is not there yet, and returns that mask. The result pairs the
  returned mask with the registry the call leaves behind.
\<close>

definition Params_getKeyType ::
  "(string \<times> 32 word) list \<Rightarrow> string \<Rightarrow> 32 word \<times> (string \<times> 32 word) list" where
  "Params_getKeyType ks key =
     (case map_of ks key of
        Some ktype \<Rightarrow> (ktype, ks)
      | None \<Rightarrow> (0, ks @ [(key, 0)]))"

section \<open>clearAll\<close>

record clear_env =
  ce_lock_open :: sysres
  ce_unlink :: "string \<Rightarrow> sysres"
  ce_dir :: dir_env

text \<open>
  The loop of \<^verbatim>\<open>Params::clearAll\<close> (lines 431-436) over the registry: a key whose
  mask shares a bit with \<open>key_type\<close> is unlinked, and the result of the call is dropped.
  \<open>unlink_res\<close> gives the outcome the operating system has for each path.
\<close>

fun clear_loop ::
  "(string \<Rightarrow> sysres) \<Rightarrow> string \<Rightarrow> 32 word \<Rightarrow> (string \<times> 32 word) list \<Rightarrow> fs \<Rightarrow> fs" where
  "clear_loop unlink_res params_path key_type [] fs = fs"
| "clear_loop unlink_res params_path key_type ((key, ktype) # ks) fs =
     clear_loop unlink_res params_path key_type ks
       (if ktype AND key_type = 0 then fs
        else snd (sys_unlink (unlink_res (params_path @ ''/d/'' @ key))
                    (params_path @ ''/d/'' @ key) fs))"

text \<open>
  \<^verbatim>\<open>Params::clearAll\<close> (lines 426-441). The function returns nothing; the result of
  the closing \<^verbatim>\<open>fsync_dir\<close> is dropped.
\<close>

definition Params_clearAll ::
  "clear_env \<Rightarrow> string \<Rightarrow> (string \<times> 32 word) list \<Rightarrow> fs \<Rightarrow> 32 word \<Rightarrow> fs" where
  "Params_clearAll env params_path ks fs key_type =
     clear_loop (ce_unlink env) params_path key_type ks
       (FileLock_lock (ce_lock_open env) (params_path @ ''/.lock'') fs)"

section \<open>Directory bootstrap\<close>

text \<open>
  Modelled from the spec: \<^verbatim>\<open>util::create_directories\<close> (\<^verbatim>\<open>util.cc\<close>, not among
  the sources) creates the directory together with its full parent path, and reports
  whether it succeeded.
\<close>

definition dir_prefixes :: "string \<Rightarrow> string list" where
  "dir_prefixes dir =
     map (\<lambda>n. take n dir) (filter (\<lambda>n. 0 < n \<and> dir ! n = CHR ''/'') [0..<length dir]) @ [dir]"

definition make_dir :: "string \<Rightarrow> fs \<Rightarrow> fs" where
  "make_dir d fs = (case fs d of None \<Rightarrow> fs(d \<mapsto> Dir) | Some n \<Rightarrow> fs)"

definition create_directories :: "sysres \<Rightarrow> string \<Rightarrow> fs \<Rightarrow> bool \<times> fs" where
  "create_directories res dir fs =
     (case res of
        Err e \<Rightarrow> (False, fs)
      | Ok \<Rightarrow> (if dir = [] then (False, fs) else (True, fold make_dir (dir_prefixes dir) fs)))"

record boot_env =
  be_mkdir :: sysres
  be_mkdtemp :: "string option"
  be_symlink :: sysres
  be_rename :: sysres

text \<open>
  The block of \<^verbatim>\<open>create_params_path\<close> that publishes the key directory
  (lines 58-73): temporary directory, symbolic link to it, rename of the link onto
  \<open>key_path\<close>. The link's target is the string \<open>tmp_dir\<close>, which starts with
  \<open>param_path\<close>. A rename that fails with \<^verbatim>\<open>EEXIST\<close> does not make the function fail.
\<close>

definition publish_key_path :: "boot_env \<Rightarrow> string \<Rightarrow> string \<Rightarrow> fs \<Rightarrow> bool \<times> fs" where
  "publish_key_path env param_path key_path fs =
     (case sys_mkdtemp (be_mkdtemp env) (param_path @ ''/.tmp_XXXXXX'') fs of
        None \<Rightarrow> (False, fs)
      | Some (tmp_dir, fs1) \<Rightarrow>
          (case sys_symlink (be_symlink env) tmp_dir (tmp_dir @ ''.link'') fs1 of
             (Err e, fs2) \<Rightarrow> (False, fs2)
           | (Ok, fs2) \<Rightarrow>
               (case sys_rename (be_rename env) (tmp_dir @ ''.link'') key_path fs2 of
                  (Ok, fs3) \<Rightarrow> (True, fs3)
                | (Err e, fs3) \<Rightarrow> (if e = EEXIST then (True, fs3) else (False, fs3)))))"

text \<open>\<^verbatim>\<open>create_params_path\<close> (lines 45-77).\<close>

definition create_params_path :: "boot_env \<Rightarrow> string \<Rightarrow> string \<Rightarrow> fs \<Rightarrow> bool \<times> fs" where
  "create_params_path env param_path key_path fs =
     (case (if file_exists fs param_path then (True, fs)
            else create_directories (be_mkdir env) param_path fs) of
        (False, fs1) \<Rightarrow> (False, fs1)
      | (True, fs1) \<Rightarrow>
          (if file_exists fs1 key_path then (True, fs1)
           else publish_key_path env param_path key_path fs1))"

datatype error = runtime_error

text \<open>
  \<^verbatim>\<open>ensure_params_path\<close> (lines 79-83) throws \<^verbatim>\<open>std::runtime_error\<close> when
  \<^verbatim>\<open>create_params_path\<close> returns false. What was created up to then stays on disk.
\<close>

definition ensure_params_path :: "boot_env \<Rightarrow> string \<Rightarrow> fs \<Rightarrow> (error + unit) \<times> fs" where
  "ensure_params_path env params_path fs =
     (case create_params_path env params_path (params_path @ ''/d'') fs of
        (True, fs1) \<Rightarrow> (Inr (), fs1)
      | (False, fs1) \<Rightarrow> (Inl runtime_error, fs1))"

section \<open>Sample states and environments\<close>

text \<open>
  A storage root after bootstrap with one stored parameter, and environments in which
  every system call succeeds or exactly one step fails. The theorems below are
  instantiated on them.
\<close>

definition sample_root :: string where
  "sample_root = ''/data/params''"

definition sample_fs :: fs where
  "sample_fs =
     [''/data/params'' \<mapsto> Dir,
      ''/data/params/.tmp_k3Wq9z'' \<mapsto> Dir,
      ''/data/params/d'' \<mapsto> Symlink ''/data/params/.tmp_k3Wq9z'',
      ''/data/params/d/DongleId'' \<mapsto> File ''old'']"

definition proc0 :: proc where
  "proc0 = \<lparr>params_do_exit = False, sigint_handler = SIG_DFL, sigterm_handler = SIG_IGN,
             sleeps = 0\<rparr>"

definition quiet :: "nat \<Rightarrow> event list" where
  "quiet i = []"

definition dir_ok :: dir_env where
  "dir_ok = \<lparr>de_open = Ok, de_fsync = Ok, de_close = Ok\<rparr>"

definition dir_sync_fails :: dir_env where
  "dir_sync_fails = \<lparr>de_open = Ok, de_fsync = Err 5, de_close = Ok\<rparr>"

definition put_ok :: put_env where
  "put_ok = \<lparr>pe_mkstemp = Some ''Ab3xYz'', pe_write = 6, pe_fsync = Ok, pe_lock_open = Ok,
              pe_rename = Ok, pe_dir = dir_ok, pe_unlink = Ok\<rparr>"

definition put_mkstemp_fails :: put_env where
  "put_mkstemp_fails = put_ok\<lparr>pe_mkstemp := None\<rparr>"

definition put_short_write :: put_env where
  "put_short_write = put_ok\<lparr>pe_write := 4\<rparr>"

definition put_fsync_fails :: put_env where
  "put_fsync_fails = put_ok\<lparr>pe_fsync := Err 5\<rparr>"

definition put_rename_fails :: put_env where
  "put_rename_fails = put_ok\<lparr>pe_rename := Err 13\<rparr>"

definition put_dir_sync_fails :: put_env where
  "put_dir_sync_fails = put_ok\<lparr>pe_dir := dir_sync_fails\<rparr>"

definition remove_ok :: remove_env where
  "remove_ok = \<lparr>re_lock_open = Ok, re_unlink = Ok, re_dir = dir_ok\<rparr>"

definition remove_dir_sync_fails :: remove_env where
  "remove_dir_sync_fails = remove_ok\<lparr>re_dir := dir_sync_fails\<rparr>"

definition sample_store :: fs where
  "sample_store =
     sample_fs(''/data/params/d/CarParams'' \<mapsto> File ''cp'',
               ''/data/params/d/CurrentRoute'' \<mapsto> File ''route'')"

definition unlink_works :: "string \<Rightarrow> sysres" where
  "unlink_works path = Ok"

definition unlink_denied :: "string \<Rightarrow> sysres" where
  "unlink_denied path = Err 13"

definition clear_ok :: clear_env where
  "clear_ok = \<lparr>ce_lock_open = Ok, ce_unlink = unlink_works, ce_dir = dir_ok\<rparr>"

definition clear_denied :: clear_env where
  "clear_denied = \<lparr>ce_lock_open = Ok, ce_unlink = unlink_denied, ce_dir = dir_ok\<rparr>"

definition sigint_at_2 :: "nat \<Rightarrow> event list" where
  "sigint_at_2 i = (if i = 2 then [Signal SIGINT] else [])"

definition set_at_1 :: "nat \<Rightarrow> event list" where
  "set_at_1 i = (if i = 1 then [FsSet ''/data/params/d/CarVin'' (Some (File ''VIN''))] else [])"

definition empty_fs :: fs where
  "empty_fs = Map.empty"

definition boot_ok :: boot_env where
  "boot_ok = \<lparr>be_mkdir = Ok, be_mkdtemp = Some ''k3Wq9z'', be_symlink = Ok, be_rename = Ok\<rparr>"

definition boot_again :: boot_env where
  "boot_again = \<lparr>be_mkdir = Ok, be_mkdtemp = Some ''Zz81aa'', be_symlink = Ok, be_rename = Ok\<rparr>"

definition relative_root :: string where
  "relative_root = ''params''"

definition sigterm_first :: "event list" where
  "sigterm_first = [Signal SIGTERM]"

section \<open>Path facts\<close>

lemma pair_fstI: "fst x = a \<Longrightarrow> x = (a, snd x)"
  by auto

lemma tmp_value_neq_key:
  "fill_template (root @ ''/.tmp_value_XXXXXX'') s \<noteq> root @ ''/d/'' @ key"
  by (simp add: fill_template_def)

lemma tmp_value_neq_dir:
  "fill_template (root @ ''/.tmp_value_XXXXXX'') s \<noteq> root @ ''/d''"
  by (simp add: fill_template_def)

section \<open>System calls\<close>

lemma sys_mkstemp_SomeD:
  assumes "sys_mkstemp c t fs = Some (p, fs1)"
  shows "\<exists>s. p = fill_template t s \<and> fs p = None \<and> fs1 = fs(p \<mapsto> File [])"
  using assms by (auto simp: sys_mkstemp_def sys_mktemp_def split: option.splits if_splits)

lemma leads_to_node_numeral:
  "leads_to_node (numeral k) fs fn =
     (case fs fn of
        None \<Rightarrow> False
      | Some (Symlink target) \<Rightarrow> leads_to_node (pred_numeral k) fs (link_target fn target)
      | Some nd \<Rightarrow> True)"
  by (simp add: numeral_eq_Suc)

lemma sys_unlink_other: "q \<noteq> path \<Longrightarrow> snd (sys_unlink u path fs) q = fs q"
  by (simp add: sys_unlink_def split: option.splits sysres.splits)

lemma fsync_dir_cong: "fs a = fs' a \<Longrightarrow> fsync_dir e a fs = fsync_dir e a fs'"
  by (simp add: fsync_dir_def)

section \<open>put\<close>

lemma put_steps_ok:
  assumes "put_steps env root fs tmp key v = (0, fs2)" and "fs tmp \<noteq> None" and "tmp \<noteq> root @ ''/d/'' @ key"
  shows "fs2 (root @ ''/d/'' @ key) = Some (File v)"
  using assms
  by (auto simp: put_steps_def sys_write_def sys_rename_def FileLock_lock_def
      split: option.splits if_splits sysres.splits prod.splits)

lemma put_steps_frame:
  assumes "put_steps env root fs tmp key v = (r, fs2)"
    and "q \<noteq> tmp" and "q \<noteq> root @ ''/.lock''" and "q \<noteq> root @ ''/d/'' @ key"
  shows "fs2 q = fs q"
  using assms
  by (auto simp: put_steps_def sys_write_def sys_rename_def FileLock_lock_def
      split: option.splits if_splits sysres.splits prod.splits)

lemma put_steps_fail:
  assumes "put_steps env root fs tmp key v = (r, fs2)" and "r \<noteq> 0"
    and "fsync_dir (pe_dir env) (root @ ''/d'') fs2 = 0" and "tmp \<noteq> root @ ''/d/'' @ key"
  shows "fs2 (root @ ''/d/'' @ key) = fs (root @ ''/d/'' @ key)"
  using assms
  by (auto simp: put_steps_def sys_write_def sys_rename_def FileLock_lock_def
      split: option.splits if_splits sysres.splits prod.splits)

lemma Params_put_cases:
  assumes "Params_put env root fs key v = (r, fs')"
  shows "(r = - 1 \<and> fs' = fs) \<or>
         (\<exists>s fs2. fs (fill_template (root @ ''/.tmp_value_XXXXXX'') s) = None \<and>
            put_steps env root (fs(fill_template (root @ ''/.tmp_value_XXXXXX'') s \<mapsto> File []))
              (fill_template (root @ ''/.tmp_value_XXXXXX'') s) key v = (r, fs2) \<and>
            fs' = snd (sys_unlink (pe_unlink env) (fill_template (root @ ''/.tmp_value_XXXXXX'') s) fs2))"
proof (cases "sys_mkstemp (pe_mkstemp env) (root @ ''/.tmp_value_XXXXXX'') fs")
  case None
  with assms show ?thesis by (simp add: Params_put_def)
next
  case (Some a)
  obtain p fs1 where a: "a = (p, fs1)" by (cases a)
  from Some a sys_mkstemp_SomeD obtain s where
    s: "p = fill_template (root @ ''/.tmp_value_XXXXXX'') s" "fs p = None" "fs1 = fs(p \<mapsto> File [])"
    by blast
  obtain r2 fs2 where st: "put_steps env root fs1 p key v = (r2, fs2)"
    by (cases "put_steps env root fs1 p key v")
  from assms Some a st have "r = r2" "fs' = snd (sys_unlink (pe_unlink env) p fs2)"
    by (simp_all add: Params_put_def)
  with s st show ?thesis by blast
qed

lemma put_success_key:
  assumes "Params_put env root fs key v = (0, fs')"
  shows "fs' (root @ ''/d/'' @ key) = Some (File v)"
  using Params_put_cases[OF assms]
proof (elim disjE exE conjE)
  fix s fs2
  let ?t = "fill_template (root @ ''/.tmp_value_XXXXXX'') s"
  assume st: "put_steps env root (fs(?t \<mapsto> File [])) ?t key v = (0, fs2)"
    and f: "fs' = snd (sys_unlink (pe_unlink env) ?t fs2)"
  have ne: "?t \<noteq> root @ ''/d/'' @ key" by (rule tmp_value_neq_key)
  have "fs' (root @ ''/d/'' @ key) = fs2 (root @ ''/d/'' @ key)"
    unfolding f by (rule sys_unlink_other) (rule ne[symmetric])
  also have "\<dots> = Some (File v)"
    by (rule put_steps_ok[OF st _ ne]) simp
  finally show ?thesis .
qed simp

lemma put_other_path:
  assumes "Params_put env root fs key v = (r, fs')"
    and "q \<noteq> root @ ''/d/'' @ key" and "q \<noteq> root @ ''/.lock''"
    and "\<And>s. q \<noteq> fill_template (root @ ''/.tmp_value_XXXXXX'') s"
  shows "fs' q = fs q"
  using Params_put_cases[OF assms(1)]
proof (elim disjE exE conjE)
  fix s fs2
  let ?t = "fill_template (root @ ''/.tmp_value_XXXXXX'') s"
  assume st: "put_steps env root (fs(?t \<mapsto> File [])) ?t key v = (r, fs2)"
    and f: "fs' = snd (sys_unlink (pe_unlink env) ?t fs2)"
  have "fs' q = fs2 q" using f assms(4)[of s] by (simp add: sys_unlink_other)
  also have "fs2 q = (fs(?t \<mapsto> File [])) q"
    using put_steps_frame[OF st assms(4)[of s] assms(3) assms(2)] .
  also have "\<dots> = fs q" using assms(4)[of s] by simp
  finally show ?thesis .
qed simp

lemma put_other_key:
  assumes "Params_put env root fs key v = (r, fs')" and "k \<noteq> key"
  shows "fs' (root @ ''/d/'' @ k) = fs (root @ ''/d/'' @ k)"
proof (rule put_other_path[OF assms(1)])
  show "root @ ''/d/'' @ k \<noteq> root @ ''/d/'' @ key" using assms(2) by simp
  show "root @ ''/d/'' @ k \<noteq> root @ ''/.lock''" by simp
  show "root @ ''/d/'' @ k \<noteq> fill_template (root @ ''/.tmp_value_XXXXXX'') s" for s
    using tmp_value_neq_key[of root s k] by (rule not_sym)
qed

lemma put_failure_key:
  assumes "Params_put env root fs key v = (r, fs')" and "r \<noteq> 0"
    and "fsync_dir (pe_dir env) (root @ ''/d'') fs = 0"
  shows "fs' (root @ ''/d/'' @ key) = fs (root @ ''/d/'' @ key)"
  using Params_put_cases[OF assms(1)]
proof (elim disjE exE conjE)
  fix s fs2
  let ?t = "fill_template (root @ ''/.tmp_value_XXXXXX'') s"
  let ?P = "root @ ''/d/'' @ key"
  assume st: "put_steps env root (fs(?t \<mapsto> File [])) ?t key v = (r, fs2)"
    and f: "fs' = snd (sys_unlink (pe_unlink env) ?t fs2)"
  have ne: "?t \<noteq> ?P" by (rule tmp_value_neq_key)
  have "fs2 (root @ ''/d'') = (fs(?t \<mapsto> File [])) (root @ ''/d'')"
    by (rule put_steps_frame[OF st]) (use tmp_value_neq_dir[of root s] in simp_all)
  also have "\<dots> = fs (root @ ''/d'')"
    using tmp_value_neq_dir[of root s] by simp
  finally have "fsync_dir (pe_dir env) (root @ ''/d'') fs2 = 0"
    using assms(3) fsync_dir_cong[of fs2 "root @ ''/d''" fs] by simp
  from put_steps_fail[OF st assms(2) this ne]
  have "fs2 ?P = (fs(?t \<mapsto> File [])) ?P" .
  also have "\<dots> = fs ?P" using ne by simp
  finally have "fs2 ?P = fs ?P" .
  moreover have "fs' ?P = fs2 ?P"
    unfolding f by (rule sys_unlink_other) (rule ne[symmetric])
  ultimately show ?thesis by simp
qed simp

section \<open>remove\<close>

lemma remove_success_key:
  assumes "Params_remove env root fs key = (0, fs')"
  shows "fs' (root @ ''/d/'' @ key) = None"
  using assms
  by (auto simp: Params_remove_def sys_unlink_def FileLock_lock_def
      split: option.splits if_splits sysres.splits prod.splits)

lemma remove_missing:
  assumes "fs (root @ ''/d/'' @ key) = None"
  shows "fst (Params_remove env root fs key) = - 1"
  using assms
  by (auto simp: Params_remove_def sys_unlink_def FileLock_lock_def
      split: option.splits if_splits sysres.splits prod.splits)

lemma remove_other_key:
  assumes "Params_remove env root fs key = (r, fs')" and "k \<noteq> key"
  shows "fs' (root @ ''/d/'' @ k) = fs (root @ ''/d/'' @ k)"
  using assms
  by (auto simp: Params_remove_def sys_unlink_def FileLock_lock_def
      split: option.splits if_splits sysres.splits prod.splits)

lemma remove_failure_key:
  assumes "Params_remove env root fs key = (r, fs')" and "r \<noteq> 0"
    and "fsync_dir (re_dir env) (root @ ''/d'') fs = 0"
  shows "fs' (root @ ''/d/'' @ key) = fs (root @ ''/d/'' @ key)"
proof -
  have "fsync_dir (re_dir env) (root @ ''/d'') fs1 = 0" if "fs1 (root @ ''/d'') = fs (root @ ''/d'')" for fs1
    using assms(3) that fsync_dir_cong[of fs1 "root @ ''/d''" fs "re_dir env"] by simp
  then show ?thesis using assms(1,2)
    by (auto simp: Params_remove_def sys_unlink_def FileLock_lock_def
      split: option.splits if_splits sysres.splits prod.splits)
qed

lemma get_nonblocking:
  "Params_get pre sched root p fs key False = Some (read_file fs (root @ ''/d/'' @ key), p)"
  by (simp add: Params_get_def)

section \<open>Claims about put, get and remove\<close>

text \<open>
  C1. Round trip: for every key name (a plain file name) and every byte payload \<open>v\<close>,
  when \<open>put(name, v)\<close> returns the success status 0, a non-blocking \<open>get(name)\<close> on
  the resulting store returns exactly \<open>v\<close>.
\<close>

theorem put_get_roundtrip:
  assumes "plain_file_name key"
    and "Params_put env root fs key v = (0, fs')"
  shows "Params_get pre sched root p fs' key False = Some (v, p)"
  using put_success_key[OF assms(2)] by (simp add: get_nonblocking read_file_def)

theorem put_get_roundtrip_witness:
  "plain_file_name ''DongleId'' \<and>
   fst (Params_put put_ok sample_root sample_fs ''DongleId'' ''abc123'') = 0 \<and>
   Params_get [] quiet sample_root proc0
     (snd (Params_put put_ok sample_root sample_fs ''DongleId'' ''abc123'')) ''DongleId'' False
     = Some (''abc123'', proc0)"
proof -
  have h: "fst (Params_put put_ok sample_root sample_fs ''DongleId'' ''abc123'') = 0"
    by (simp add: FileLock_lock_def Params_get_def Params_put_def dir_ok_def
        fill_template_def fsync_dir_def proc0_def put_ok_def put_steps_def quiet_def
        read_file_def sample_fs_def sample_root_def sys_mkstemp_def sys_mktemp_def
        sys_rename_def sys_unlink_def sys_write_def)
  have n: "plain_file_name ''DongleId''"
    by (simp add: plain_file_name_def)
  from put_get_roundtrip[OF n pair_fstI[OF h]] h n show ?thesis by simp
qed

text \<open>
  C2 as stated fails: when the rename of \<open>put\<close> or the unlink of \<open>remove\<close> has
  succeeded and the directory sync that follows fails, the call returns -1 although the
  store has changed.
\<close>

theorem failure_after_commit_counterexample:
  "fst (Params_put put_dir_sync_fails sample_root sample_fs ''DongleId'' ''abc123'') = - 1 \<and>
   Params_get [] quiet sample_root proc0 sample_fs ''DongleId'' False = Some (''old'', proc0) \<and>
   Params_get [] quiet sample_root proc0
     (snd (Params_put put_dir_sync_fails sample_root sample_fs ''DongleId'' ''abc123''))
     ''DongleId'' False = Some (''abc123'', proc0) \<and>
   fst (Params_remove remove_dir_sync_fails sample_root sample_fs ''DongleId'') = - 1 \<and>
   Params_get [] quiet sample_root proc0
     (snd (Params_remove remove_dir_sync_fails sample_root sample_fs ''DongleId''))
     ''DongleId'' False = Some ([], proc0)"
  by (simp add: FileLock_lock_def Params_get_def Params_put_def Params_remove_def
        dir_ok_def dir_sync_fails_def fill_template_def fsync_dir_def proc0_def
        put_dir_sync_fails_def put_ok_def put_steps_def quiet_def read_file_def
        remove_dir_sync_fails_def remove_ok_def sample_fs_def sample_root_def
        sys_mkstemp_def sys_mktemp_def sys_rename_def sys_unlink_def sys_write_def)

text \<open>
  C2, amended: whenever \<open>put(name, v)\<close> or \<open>remove(name)\<close> returns a failure status
  and the failing step is not the final directory sync (the sync of \<open>root/d\<close> is one
  that succeeds), the store is unchanged: a non-blocking \<open>get(name)\<close> returns the same
  result as before the call.
\<close>

theorem failure_before_commit_unchanged:
  "(Params_put env root fs key v = (r, fs') \<and> r \<noteq> 0 \<and>
      fsync_dir (pe_dir env) (root @ ''/d'') fs = 0
    \<longrightarrow> Params_get pre sched root p fs' key False = Params_get pre sched root p fs key False) \<and>
   (Params_remove renv root fs key = (r, fs') \<and> r \<noteq> 0 \<and>
      fsync_dir (re_dir renv) (root @ ''/d'') fs = 0
    \<longrightarrow> Params_get pre sched root p fs' key False = Params_get pre sched root p fs key False)"
proof (intro conjI impI)
  assume "Params_put env root fs key v = (r, fs') \<and> r \<noteq> 0 \<and>
      fsync_dir (pe_dir env) (root @ ''/d'') fs = 0"
  then have "fs' (root @ ''/d/'' @ key) = fs (root @ ''/d/'' @ key)"
    by (blast intro: put_failure_key)
  then show "Params_get pre sched root p fs' key False = Params_get pre sched root p fs key False"
    unfolding get_nonblocking by (simp add: read_file_def)
next
  assume "Params_remove renv root fs key = (r, fs') \<and> r \<noteq> 0 \<and>
      fsync_dir (re_dir renv) (root @ ''/d'') fs = 0"
  then have "fs' (root @ ''/d/'' @ key) = fs (root @ ''/d/'' @ key)"
    by (blast intro: remove_failure_key)
  then show "Params_get pre sched root p fs' key False = Params_get pre sched root p fs key False"
    unfolding get_nonblocking by (simp add: read_file_def)
qed

theorem failure_before_commit_unchanged_witness:
  "fst (Params_put put_rename_fails sample_root sample_fs ''DongleId'' ''abc123'') = - 1 \<and>
   fsync_dir (pe_dir put_rename_fails) (sample_root @ ''/d'') sample_fs = 0 \<and>
   Params_get [] quiet sample_root proc0
     (snd (Params_put put_rename_fails sample_root sample_fs ''DongleId'' ''abc123''))
     ''DongleId'' False = Some (''old'', proc0) \<and>
   fst (Params_remove remove_ok sample_root sample_fs ''Missing'') = - 1 \<and>
   fsync_dir (re_dir remove_ok) (sample_root @ ''/d'') sample_fs = 0 \<and>
   Params_get [] quiet sample_root proc0
     (snd (Params_remove remove_ok sample_root sample_fs ''Missing''))
     ''Missing'' False = Some ([], proc0)"
proof -
  have a: "fst (Params_put put_rename_fails sample_root sample_fs ''DongleId'' ''abc123'') = - 1"
    by (simp add: FileLock_lock_def Params_get_def Params_put_def Params_remove_def
        dir_ok_def fill_template_def fsync_dir_def proc0_def put_ok_def
        put_rename_fails_def put_steps_def quiet_def read_file_def remove_ok_def
        sample_fs_def sample_root_def sys_mkstemp_def sys_mktemp_def sys_rename_def
        sys_unlink_def sys_write_def)
  have b: "fsync_dir (pe_dir put_rename_fails) (sample_root @ ''/d'') sample_fs = 0"
    by (simp add: FileLock_lock_def Params_get_def Params_put_def Params_remove_def
        dir_ok_def fill_template_def fsync_dir_def proc0_def put_ok_def
        put_rename_fails_def put_steps_def quiet_def read_file_def remove_ok_def
        sample_fs_def sample_root_def sys_mkstemp_def sys_mktemp_def sys_rename_def
        sys_unlink_def sys_write_def)
  have c: "fst (Params_remove remove_ok sample_root sample_fs ''Missing'') = - 1"
    by (simp add: FileLock_lock_def Params_get_def Params_put_def Params_remove_def
        dir_ok_def fill_template_def fsync_dir_def proc0_def put_ok_def
        put_rename_fails_def put_steps_def quiet_def read_file_def remove_ok_def
        sample_fs_def sample_root_def sys_mkstemp_def sys_mktemp_def sys_rename_def
        sys_unlink_def sys_write_def)
  have d: "fsync_dir (re_dir remove_ok) (sample_root @ ''/d'') sample_fs = 0"
    by (simp add: FileLock_lock_def Params_get_def Params_put_def Params_remove_def
        dir_ok_def fill_template_def fsync_dir_def proc0_def put_ok_def
        put_rename_fails_def put_steps_def quiet_def read_file_def remove_ok_def
        sample_fs_def sample_root_def sys_mkstemp_def sys_mktemp_def sys_rename_def
        sys_unlink_def sys_write_def)
  have e: "Params_get [] quiet sample_root proc0 sample_fs ''DongleId'' False = Some (''old'', proc0)"
    by (simp add: FileLock_lock_def Params_get_def Params_put_def Params_remove_def
        dir_ok_def fill_template_def fsync_dir_def proc0_def put_ok_def
        put_rename_fails_def put_steps_def quiet_def read_file_def remove_ok_def
        sample_fs_def sample_root_def sys_mkstemp_def sys_mktemp_def sys_rename_def
        sys_unlink_def sys_write_def)
  have f: "Params_get [] quiet sample_root proc0 sample_fs ''Missing'' False = Some ([], proc0)"
    by (simp add: FileLock_lock_def Params_get_def Params_put_def Params_remove_def
        dir_ok_def fill_template_def fsync_dir_def proc0_def put_ok_def
        put_rename_fails_def put_steps_def quiet_def read_file_def remove_ok_def
        sample_fs_def sample_root_def sys_mkstemp_def sys_mktemp_def sys_rename_def
        sys_unlink_def sys_write_def)
  have "(- 1::int) \<noteq> 0" by simp
  with failure_before_commit_unchanged
         [of put_rename_fails sample_root sample_fs "''DongleId''" "''abc123''" "- 1"
             "snd (Params_put put_rename_fails sample_root sample_fs ''DongleId'' ''abc123'')"
             "[]" quiet proc0 remove_ok]
       failure_before_commit_unchanged
         [of put_ok sample_root sample_fs "''Missing''" "[]" "- 1"
             "snd (Params_remove remove_ok sample_root sample_fs ''Missing'')"
             "[]" quiet proc0 remove_ok]
       pair_fstI[OF a] pair_fstI[OF c] a b c d e f
  show ?thesis by simp
qed

text \<open>
  C5 as stated fails: a failure to create the temporary file, a failure of its sync and a
  failure of the rename all return -1, so these three cases cannot be told apart by the
  return value.
\<close>

theorem put_status_counterexample:
  "fst (Params_put put_mkstemp_fails sample_root sample_fs ''DongleId'' ''abc123'') = - 1 \<and>
   fst (Params_put put_fsync_fails sample_root sample_fs ''DongleId'' ''abc123'') = - 1 \<and>
   fst (Params_put put_rename_fails sample_root sample_fs ''DongleId'' ''abc123'') = - 1"
  by (simp add: FileLock_lock_def Params_put_def dir_ok_def fill_template_def
        fsync_dir_def put_fsync_fails_def put_mkstemp_fails_def put_ok_def
        put_rename_fails_def put_steps_def sample_fs_def sample_root_def
        sys_mkstemp_def sys_mktemp_def sys_rename_def sys_unlink_def sys_write_def)

text \<open>
  C5, amended: \<open>put\<close> returns a negative status, as a value, in each of its failure
  cases: -1 when the temporary file cannot be created, -20 when the write is short or
  fails, -1 when the sync of the temporary file fails, and -1 when the rename fails. Only
  the short write has a status of its own.
\<close>

theorem put_failure_status:
  "(sys_mkstemp (pe_mkstemp env) (root @ ''/.tmp_value_XXXXXX'') fs = None
      \<longrightarrow> fst (Params_put env root fs key v) = - 1) \<and>
   (sys_mkstemp (pe_mkstemp env) (root @ ''/.tmp_value_XXXXXX'') fs \<noteq> None \<and>
    pe_write env < int (length v)
      \<longrightarrow> fst (Params_put env root fs key v) = - 20) \<and>
   (sys_mkstemp (pe_mkstemp env) (root @ ''/.tmp_value_XXXXXX'') fs \<noteq> None \<and>
    int (length v) \<le> pe_write env \<and> pe_fsync env = Err e
      \<longrightarrow> fst (Params_put env root fs key v) = - 1) \<and>
   (sys_mkstemp (pe_mkstemp env) (root @ ''/.tmp_value_XXXXXX'') fs \<noteq> None \<and>
    int (length v) \<le> pe_write env \<and> pe_fsync env = Ok \<and> pe_rename env = Err e
      \<longrightarrow> fst (Params_put env root fs key v) = - 1)"
  by (auto simp: Params_put_def put_steps_def sys_write_def sys_rename_def FileLock_lock_def
      split: option.splits if_splits sysres.splits prod.splits)

theorem put_failure_status_witness:
  "sys_mkstemp (pe_mkstemp put_mkstemp_fails) (sample_root @ ''/.tmp_value_XXXXXX'') sample_fs = None \<and>
   fst (Params_put put_mkstemp_fails sample_root sample_fs ''DongleId'' ''abc123'') = - 1 \<and>
   sys_mkstemp (pe_mkstemp put_short_write) (sample_root @ ''/.tmp_value_XXXXXX'') sample_fs \<noteq> None \<and>
   pe_write put_short_write < int (length ''abc123'') \<and>
   fst (Params_put put_short_write sample_root sample_fs ''DongleId'' ''abc123'') = - 20 \<and>
   int (length ''abc123'') \<le> pe_write put_fsync_fails \<and> pe_fsync put_fsync_fails = Err 5 \<and>
   fst (Params_put put_fsync_fails sample_root sample_fs ''DongleId'' ''abc123'') = - 1 \<and>
   pe_fsync put_rename_fails = Ok \<and> pe_rename put_rename_fails = Err 13 \<and>
   fst (Params_put put_rename_fails sample_root sample_fs ''DongleId'' ''abc123'') = - 1"
proof -
  have a: "sys_mkstemp (pe_mkstemp put_mkstemp_fails) (sample_root @ ''/.tmp_value_XXXXXX'') sample_fs
             = None"
    by (simp add: FileLock_lock_def Params_put_def dir_ok_def fill_template_def
        fsync_dir_def put_fsync_fails_def put_mkstemp_fails_def put_ok_def
        put_rename_fails_def put_short_write_def put_steps_def sample_fs_def
        sample_root_def sys_mkstemp_def sys_mktemp_def sys_rename_def sys_unlink_def
        sys_write_def)
  have b: "sys_mkstemp (pe_mkstemp put_short_write) (sample_root @ ''/.tmp_value_XXXXXX'') sample_fs
             \<noteq> None"
      "sys_mkstemp (pe_mkstemp put_fsync_fails) (sample_root @ ''/.tmp_value_XXXXXX'') sample_fs
             \<noteq> None"
      "sys_mkstemp (pe_mkstemp put_rename_fails) (sample_root @ ''/.tmp_value_XXXXXX'') sample_fs
             \<noteq> None"
    by (simp_all add: FileLock_lock_def Params_put_def dir_ok_def fill_template_def
        fsync_dir_def put_fsync_fails_def put_mkstemp_fails_def put_ok_def
        put_rename_fails_def put_short_write_def put_steps_def sample_fs_def
        sample_root_def sys_mkstemp_def sys_mktemp_def sys_rename_def sys_unlink_def
        sys_write_def)
  have c: "pe_write put_short_write < int (length ''abc123'')"
      "int (length ''abc123'') \<le> pe_write put_fsync_fails" "pe_fsync put_fsync_fails = Err 5"
      "int (length ''abc123'') \<le> pe_write put_rename_fails"
      "pe_fsync put_rename_fails = Ok" "pe_rename put_rename_fails = Err 13"
    by (simp_all add: FileLock_lock_def Params_put_def dir_ok_def fill_template_def
        fsync_dir_def put_fsync_fails_def put_mkstemp_fails_def put_ok_def
        put_rename_fails_def put_short_write_def put_steps_def sample_fs_def
        sample_root_def sys_mkstemp_def sys_mktemp_def sys_rename_def sys_unlink_def
        sys_write_def)
  from put_failure_status[where env = put_mkstemp_fails and root = sample_root and fs = sample_fs
                            and key = "''DongleId''" and v = "''abc123''" and e = 0]
       put_failure_status[where env = put_short_write and root = sample_root and fs = sample_fs
                            and key = "''DongleId''" and v = "''abc123''" and e = 0]
       put_failure_status[where env = put_fsync_fails and root = sample_root and fs = sample_fs
                            and key = "''DongleId''" and v = "''abc123''" and e = 5]
       put_failure_status[where env = put_rename_fails and root = sample_root and fs = sample_fs
                            and key = "''DongleId''" and v = "''abc123''" and e = 13]
       a b c
  show ?thesis by simp
qed

text \<open>
  C6. For every key name, after \<open>remove(name)\<close> has returned the success status 0 a
  non-blocking \<open>get(name)\<close> returns the empty (absent) result; and when the key's file
  does not exist (the directory has no entry of that name), \<open>remove(name)\<close> returns a
  failure status.
\<close>

theorem remove_then_get:
  "(Params_remove env root fs key = (0, fs')
      \<longrightarrow> Params_get pre sched root p fs' key False = Some ([], p)) \<and>
   (fs (root @ ''/d/'' @ key) = None \<longrightarrow> fst (Params_remove env root fs key) \<noteq> 0)"
proof (intro conjI impI)
  assume "Params_remove env root fs key = (0, fs')"
  then have "fs' (root @ ''/d/'' @ key) = None" by (rule remove_success_key)
  then show "Params_get pre sched root p fs' key False = Some ([], p)"
    unfolding get_nonblocking by (simp add: read_file_def)
next
  assume "fs (root @ ''/d/'' @ key) = None"
  with remove_missing[of fs root key env] show "fst (Params_remove env root fs key) \<noteq> 0" by simp
qed

theorem remove_then_get_witness:
  "fst (Params_remove remove_ok sample_root sample_fs ''DongleId'') = 0 \<and>
   Params_get [] quiet sample_root proc0
     (snd (Params_remove remove_ok sample_root sample_fs ''DongleId'')) ''DongleId'' False
     = Some ([], proc0) \<and>
   sample_fs (sample_root @ ''/d/'' @ ''Missing'') = None \<and>
   fst (Params_remove remove_ok sample_root sample_fs ''Missing'') \<noteq> 0"
proof -
  have a: "fst (Params_remove remove_ok sample_root sample_fs ''DongleId'') = 0"
    by (simp add: FileLock_lock_def Params_get_def Params_remove_def dir_ok_def
        fsync_dir_def proc0_def quiet_def read_file_def
        remove_ok_def sample_fs_def sample_root_def sys_unlink_def)
  have b: "sample_fs (sample_root @ ''/d/'' @ ''Missing'') = None"
    by (simp add: sample_fs_def sample_root_def)
  from remove_then_get[where env = remove_ok and root = sample_root and fs = sample_fs
           and key = "''DongleId''" and pre = "[]" and sched = quiet and p = proc0
           and fs' = "snd (Params_remove remove_ok sample_root sample_fs ''DongleId'')"]
       remove_then_get[where env = remove_ok and root = sample_root and fs = sample_fs
           and key = "''Missing''"]
       pair_fstI[OF a] a b
  show ?thesis by simp
qed

text \<open>
  C7. A non-blocking \<open>get(name)\<close> returns the empty string, as an ordinary result, both
  when the key's file does not exist and when it exists with empty contents; the caller
  gets the same value and the same process state in the two cases.
\<close>

theorem get_missing_or_empty:
  assumes "\<not> file_exists fs (root @ ''/d/'' @ key) \<or> fs (root @ ''/d/'' @ key) = Some (File [])"
  shows "Params_get pre sched root p fs key False = Some ([], p)"
proof -
  from assms have "read_file fs (root @ ''/d/'' @ key) = []"
    by (auto simp: read_file_def file_exists_def leads_to_node_numeral
        split: option.splits node.splits)
  then show ?thesis unfolding get_nonblocking by simp
qed

theorem get_missing_or_empty_witness:
  "\<not> file_exists sample_fs (sample_root @ ''/d/'' @ ''Missing'') \<and>
   Params_get [] quiet sample_root proc0 sample_fs ''Missing'' False = Some ([], proc0) \<and>
   (sample_fs(sample_root @ ''/d/'' @ ''Missing'' \<mapsto> File [])) (sample_root @ ''/d/'' @ ''Missing'')
     = Some (File []) \<and>
   Params_get [] quiet sample_root proc0
     (sample_fs(sample_root @ ''/d/'' @ ''Missing'' \<mapsto> File [])) ''Missing'' False
     = Some ([], proc0)"
proof -
  have a: "\<not> file_exists sample_fs (sample_root @ ''/d/'' @ ''Missing'')"
    by (simp add: file_exists_def leads_to_node_numeral sample_fs_def sample_root_def)
  have b: "(sample_fs(sample_root @ ''/d/'' @ ''Missing'' \<mapsto> File []))
             (sample_root @ ''/d/'' @ ''Missing'') = Some (File [])"
    by simp
  from get_missing_or_empty[where fs = sample_fs and root = sample_root and key = "''Missing''"
           and pre = "[]" and sched = quiet and p = proc0]
       get_missing_or_empty[where fs = "sample_fs(sample_root @ ''/d/'' @ ''Missing'' \<mapsto> File [])"
           and root = sample_root and key = "''Missing''" and pre = "[]" and sched = quiet
           and p = proc0]
       a b
  show ?thesis by simp
qed

text \<open>
  C10. Frame: for two distinct key names \<open>k\<close> and \<open>k'\<close>, both plain file names,
  neither \<open>put(k, v)\<close> nor \<open>remove(k)\<close>, whatever status they return, changes what a
  non-blocking \<open>get(k')\<close> returns.
\<close>

theorem put_remove_frame:
  assumes "plain_file_name k" and "plain_file_name k'" and "k \<noteq> k'"
  shows "Params_get pre sched root p (snd (Params_put env root fs k v)) k' False
           = Params_get pre sched root p fs k' False \<and>
         Params_get pre sched root p (snd (Params_remove renv root fs k)) k' False
           = Params_get pre sched root p fs k' False"
proof -
  have "snd (Params_put env root fs k v) (root @ ''/d/'' @ k') = fs (root @ ''/d/'' @ k')"
    by (rule put_other_key[OF prod.collapse[symmetric]]) (use assms(3) in simp)
  moreover
  have "snd (Params_remove renv root fs k) (root @ ''/d/'' @ k') = fs (root @ ''/d/'' @ k')"
    by (rule remove_other_key[OF prod.collapse[symmetric]]) (use assms(3) in simp)
  ultimately show ?thesis
    unfolding get_nonblocking by (simp add: read_file_def)
qed

theorem put_remove_frame_witness:
  "plain_file_name ''CarVin'' \<and> plain_file_name ''DongleId'' \<and> ''CarVin'' \<noteq> ''DongleId'' \<and>
   Params_get [] quiet sample_root proc0
     (snd (Params_put put_ok sample_root sample_fs ''CarVin'' ''abc123'')) ''DongleId'' False
     = Some (''old'', proc0) \<and>
   Params_get [] quiet sample_root proc0
     (snd (Params_remove remove_ok sample_root sample_fs ''CarVin'')) ''DongleId'' False
     = Some (''old'', proc0)"
proof -
  have a: "''CarVin'' \<noteq> ''DongleId''" by simp
  have b: "Params_get [] quiet sample_root proc0 sample_fs ''DongleId'' False = Some (''old'', proc0)"
    by (simp add: FileLock_lock_def Params_get_def Params_put_def Params_remove_def
        dir_ok_def fill_template_def fsync_dir_def proc0_def put_ok_def
        put_steps_def quiet_def read_file_def remove_ok_def sample_fs_def
        sample_root_def sys_mkstemp_def sys_mktemp_def sys_rename_def sys_unlink_def
        sys_write_def)
  have n: "plain_file_name ''CarVin''" "plain_file_name ''DongleId''"
    by (simp_all add: plain_file_name_def)
  from put_remove_frame[OF n a, where pre = "[]" and sched = quiet and root = sample_root
           and p = proc0 and env = put_ok and fs = sample_fs and v = "''abc123''"
           and renv = remove_ok]
       n a b
  show ?thesis by simp
qed

section \<open>Claims about the registry and clearAll\<close>

text \<open>
  C3. The claim is that no operation changes the set of registered names or a key's
  mask, also for unregistered key names. \<open>getKeyType\<close> does: asked for a name that is
  not registered, it returns the mask 0 and leaves the name in the registry, so that
  \<open>checkKey\<close>, which was false for that name, is true afterwards.
\<close>

theorem getKeyType_inserts_key:
  "\<not> Params_checkKey keys ''NoSuchKey'' \<and>
   fst (Params_getKeyType keys ''NoSuchKey'') = 0 \<and>
   snd (Params_getKeyType keys ''NoSuchKey'') = keys @ [(''NoSuchKey'', 0)] \<and>
   Params_checkKey (snd (Params_getKeyType keys ''NoSuchKey'')) ''NoSuchKey''"
proof -
  have a: "map_of keys ''NoSuchKey'' = None"
    by (simp add: keys_def)
  then show ?thesis
    by (simp add: Params_checkKey_def Params_getKeyType_def map_add_def)
qed

subsection \<open>The loop of clearAll\<close>

lemma clear_loop_None:
  "fs q = None \<Longrightarrow> clear_loop u root m ks fs q = None"
  by (induction ks arbitrary: fs)
     (auto simp: sys_unlink_def split: option.splits sysres.splits)

lemma clear_loop_removed:
  assumes "(key, ktype) \<in> set ks" and "ktype AND m \<noteq> 0" and "u (root @ ''/d/'' @ key) = Ok"
  shows "clear_loop u root m ks fs (root @ ''/d/'' @ key) = None"
  using assms(1)
proof (induction ks arbitrary: fs)
  case Nil
  then show ?case by simp
next
  case (Cons a ks)
  obtain k t where a: "a = (k, t)" by (cases a)
  show ?case
  proof (cases "a = (key, ktype)")
    case True
    with a assms(2,3) show ?thesis
      by (auto simp: sys_unlink_def intro!: clear_loop_None split: option.splits)
  next
    case False
    with Cons.prems have "(key, ktype) \<in> set ks" by simp
    from Cons.IH[OF this] a show ?thesis by simp
  qed
qed

lemma clear_loop_kept:
  assumes "\<And>k t. (k, t) \<in> set ks \<Longrightarrow> t AND m \<noteq> 0 \<Longrightarrow> root @ ''/d/'' @ k \<noteq> q"
  shows "clear_loop u root m ks fs q = fs q"
  using assms
proof (induction ks arbitrary: fs)
  case Nil
  then show ?case by simp
next
  case (Cons a ks)
  obtain k t where a: "a = (k, t)" by (cases a)
  have ih: "clear_loop u root m ks fs1 q = fs1 q" for fs1
    by (rule Cons.IH) (use Cons.prems in auto)
  show ?case
  proof (cases "t AND m = 0")
    case True
    with a ih show ?thesis by simp
  next
    case False
    with Cons.prems[of k t] a have "root @ ''/d/'' @ k \<noteq> q" by simp
    with a ih False show ?thesis by (simp add: sys_unlink_other)
  qed
qed

text \<open>
  C4, amended: for every category mask \<open>m\<close>, \<open>clearAll(m)\<close> unlinks the registered
  keys whose mask shares a bit with \<open>m\<close> and drops the result of each unlink. Afterwards
  a non-blocking \<open>get\<close> returns the empty (absent) result for every such key whose
  unlink the operating system does not refuse, and every key none of whose registry
  entries shares a bit with \<open>m\<close> keeps its prior value. Key names, the registered ones
  and the one that is read, are plain file names.
\<close>

theorem clearAll_selective:
  assumes "plain_file_name key"
    and "\<forall>k t. (k, t) \<in> set ks \<longrightarrow> plain_file_name k"
  shows
  "((key, ktype) \<in> set ks \<and> ktype AND m \<noteq> 0 \<and> ce_unlink env (root @ ''/d/'' @ key) = Ok
      \<longrightarrow> Params_get pre sched root p (Params_clearAll env root ks fs m) key False = Some ([], p)) \<and>
   ((\<forall>t. (key, t) \<in> set ks \<longrightarrow> t AND m = 0)
      \<longrightarrow> Params_get pre sched root p (Params_clearAll env root ks fs m) key False
            = Params_get pre sched root p fs key False)"
proof (intro conjI impI)
  assume "(key, ktype) \<in> set ks \<and> ktype AND m \<noteq> 0 \<and> ce_unlink env (root @ ''/d/'' @ key) = Ok"
  then have "Params_clearAll env root ks fs m (root @ ''/d/'' @ key) = None"
    unfolding Params_clearAll_def by (blast intro: clear_loop_removed)
  then show "Params_get pre sched root p (Params_clearAll env root ks fs m) key False = Some ([], p)"
    unfolding get_nonblocking by (simp add: read_file_def)
next
  assume h: "\<forall>t. (key, t) \<in> set ks \<longrightarrow> t AND m = 0"
  have "Params_clearAll env root ks fs m (root @ ''/d/'' @ key)
          = FileLock_lock (ce_lock_open env) (root @ ''/.lock'') fs (root @ ''/d/'' @ key)"
    unfolding Params_clearAll_def by (rule clear_loop_kept) (use h in auto)
  also have "\<dots> = fs (root @ ''/d/'' @ key)"
    by (simp add: FileLock_lock_def split: sysres.splits option.splits)
  finally show "Params_get pre sched root p (Params_clearAll env root ks fs m) key False
            = Params_get pre sched root p fs key False"
    unfolding get_nonblocking by (simp add: read_file_def)
qed

theorem clearAll_selective_witness:
  "Params_get [] quiet sample_root proc0
     (Params_clearAll clear_ok sample_root keys sample_store CLEAR_ON_IGNITION_ON)
     ''CurrentRoute'' False = Some ([], proc0) \<and>
   Params_get [] quiet sample_root proc0
     (Params_clearAll clear_ok sample_root keys sample_store CLEAR_ON_IGNITION_ON)
     ''CarParams'' False = Some ([], proc0) \<and>
   Params_get [] quiet sample_root proc0
     (Params_clearAll clear_ok sample_root keys sample_store CLEAR_ON_IGNITION_ON)
     ''DongleId'' False = Some (''old'', proc0)"
proof -
  have "list_all (\<lambda>e. plain_file_name (fst e)) keys"
    by (simp add: keys_def plain_file_name_def)
  then have r: "\<forall>k t. (k, t) \<in> set keys \<longrightarrow> plain_file_name k"
    by (auto simp: list_all_iff)
  have n: "plain_file_name ''CurrentRoute''" "plain_file_name ''CarParams''"
      "plain_file_name ''DongleId''"
    by (simp_all add: plain_file_name_def)
  have a: "(''CurrentRoute'', CLEAR_ON_MANAGER_START OR CLEAR_ON_IGNITION_ON) \<in> set keys"
      "(''CarParams'', CLEAR_ON_MANAGER_START OR CLEAR_ON_PANDA_DISCONNECT OR CLEAR_ON_IGNITION_ON)
         \<in> set keys"
    by (simp_all add: keys_def)
  have b: "(CLEAR_ON_MANAGER_START OR CLEAR_ON_IGNITION_ON) AND CLEAR_ON_IGNITION_ON \<noteq> 0"
      "(CLEAR_ON_MANAGER_START OR CLEAR_ON_PANDA_DISCONNECT OR CLEAR_ON_IGNITION_ON)
         AND CLEAR_ON_IGNITION_ON \<noteq> 0"
    by (simp_all add: CLEAR_ON_IGNITION_OFF_def CLEAR_ON_IGNITION_ON_def
        CLEAR_ON_MANAGER_START_def CLEAR_ON_PANDA_DISCONNECT_def DONT_LOG_def
        FileLock_lock_def PERSISTENT_def Params_clearAll_def Params_get_def
        clear_ok_def dir_ok_def proc0_def quiet_def read_file_def sample_fs_def
        sample_root_def sample_store_def unlink_works_def)
  have c: "ce_unlink clear_ok (sample_root @ ''/d/'' @ ''CurrentRoute'') = Ok"
      "ce_unlink clear_ok (sample_root @ ''/d/'' @ ''CarParams'') = Ok"
    by (simp_all add: CLEAR_ON_IGNITION_OFF_def CLEAR_ON_IGNITION_ON_def
        CLEAR_ON_MANAGER_START_def CLEAR_ON_PANDA_DISCONNECT_def DONT_LOG_def
        FileLock_lock_def PERSISTENT_def Params_clearAll_def Params_get_def
        clear_ok_def dir_ok_def proc0_def quiet_def read_file_def sample_fs_def
        sample_root_def sample_store_def unlink_works_def)
  have d: "\<forall>t. (''DongleId'', t) \<in> set keys \<longrightarrow> t AND CLEAR_ON_IGNITION_ON = 0"
    by (simp add: keys_def CLEAR_ON_IGNITION_OFF_def CLEAR_ON_IGNITION_ON_def
        CLEAR_ON_MANAGER_START_def CLEAR_ON_PANDA_DISCONNECT_def DONT_LOG_def
        FileLock_lock_def PERSISTENT_def Params_clearAll_def Params_get_def
        clear_ok_def dir_ok_def proc0_def quiet_def read_file_def sample_fs_def
        sample_root_def sample_store_def unlink_works_def)
  have e: "Params_get [] quiet sample_root proc0 sample_store ''DongleId'' False
             = Some (''old'', proc0)"
    by (simp add: CLEAR_ON_IGNITION_OFF_def CLEAR_ON_IGNITION_ON_def
        CLEAR_ON_MANAGER_START_def CLEAR_ON_PANDA_DISCONNECT_def DONT_LOG_def
        FileLock_lock_def PERSISTENT_def Params_clearAll_def Params_get_def
        clear_ok_def dir_ok_def proc0_def quiet_def read_file_def sample_fs_def
        sample_root_def sample_store_def unlink_works_def sys_unlink_def)
  from clearAll_selective[OF n(1) r, where
           ktype = "CLEAR_ON_MANAGER_START OR CLEAR_ON_IGNITION_ON"
           and m = CLEAR_ON_IGNITION_ON and env = clear_ok and root = sample_root
           and fs = sample_store and pre = "[]" and sched = quiet and p = proc0]
       clearAll_selective[OF n(2) r, where
           ktype = "CLEAR_ON_MANAGER_START OR CLEAR_ON_PANDA_DISCONNECT OR CLEAR_ON_IGNITION_ON"
           and m = CLEAR_ON_IGNITION_ON and env = clear_ok and root = sample_root
           and fs = sample_store and pre = "[]" and sched = quiet and p = proc0]
       clearAll_selective[OF n(3) r, where
           m = CLEAR_ON_IGNITION_ON and env = clear_ok and root = sample_root
           and fs = sample_store and pre = "[]" and sched = quiet and p = proc0]
       a b c d e
  show ?thesis by simp
qed

text \<open>
  C4 as stated fails: \<open>clearAll\<close> ignores the result of every unlink, so a key whose
  mask shares a bit with \<open>m\<close> and whose unlink the operating system refuses (here with
  errno 13) is still there afterwards.
\<close>

theorem clearAll_counterexample:
  "plain_file_name ''CarParams'' \<and>
   (''CarParams'', CLEAR_ON_MANAGER_START OR CLEAR_ON_PANDA_DISCONNECT OR CLEAR_ON_IGNITION_ON)
     \<in> set keys \<and>
   (CLEAR_ON_MANAGER_START OR CLEAR_ON_PANDA_DISCONNECT OR CLEAR_ON_IGNITION_ON)
     AND CLEAR_ON_IGNITION_ON \<noteq> 0 \<and>
   Params_get [] quiet sample_root proc0
     (Params_clearAll clear_denied sample_root keys sample_store CLEAR_ON_IGNITION_ON)
     ''CarParams'' False = Some (''cp'', proc0)"
  by (simp add: keys_def plain_file_name_def CLEAR_ON_IGNITION_OFF_def
        CLEAR_ON_IGNITION_ON_def
        CLEAR_ON_MANAGER_START_def CLEAR_ON_PANDA_DISCONNECT_def DONT_LOG_def
        FileLock_lock_def PERSISTENT_def Params_clearAll_def Params_get_def
        clear_denied_def dir_ok_def proc0_def quiet_def read_file_def sample_fs_def
        sample_root_def sample_store_def unlink_denied_def sys_unlink_def)

section \<open>Claims about the blocking get\<close>

lemma occur_keeps:
  "sigint_handler (fst (occur e st)) = sigint_handler (fst st) \<and>
   sigterm_handler (fst (occur e st)) = sigterm_handler (fst st) \<and>
   sleeps (fst (occur e st)) = sleeps (fst st)"
  by (cases e; cases st) (simp_all split: handler.splits)

lemma occur_all_keeps:
  "sigint_handler (fst (occur_all evs st)) = sigint_handler (fst st) \<and>
   sigterm_handler (fst (occur_all evs st)) = sigterm_handler (fst st) \<and>
   sleeps (fst (occur_all evs st)) = sleeps (fst st)"
  unfolding occur_all_def
  by (induction evs arbitrary: st) (simp_all add: occur_keeps)

lemma occur_flag_stays:
  "params_do_exit (fst st) \<Longrightarrow> params_do_exit (fst (occur e st))"
  by (cases e; cases st) (simp_all split: handler.splits)

lemma occur_all_flag_stays:
  "params_do_exit (fst st) \<Longrightarrow> params_do_exit (fst (occur_all evs st))"
  unfolding occur_all_def
  by (induction evs arbitrary: st) (simp_all add: occur_flag_stays)

lemma occur_signal_sets_flag:
  assumes "sigint_handler (fst st) = params_sig_handler"
    and "sigterm_handler (fst st) = params_sig_handler"
  shows "params_do_exit (fst (occur (Signal s) st))"
  using assms by (cases st; cases s) (simp_all add: installed_def)

lemma occur_all_signal_sets_flag:
  assumes "Signal s \<in> set evs"
    and "sigint_handler (fst st) = params_sig_handler"
    and "sigterm_handler (fst st) = params_sig_handler"
  shows "params_do_exit (fst (occur_all evs st))"
  using assms
proof (induction evs arbitrary: st)
  case Nil
  then show ?case by simp
next
  case (Cons e evs)
  have step: "occur_all (e # evs) st = occur_all evs (occur e st)"
    by (simp add: occur_all_def)
  show ?case
  proof (cases "e = Signal s")
    case True
    with Cons.prems have "params_do_exit (fst (occur e st))"
      by (simp add: occur_signal_sets_flag)
    then show ?thesis unfolding step by (rule occur_all_flag_stays)
  next
    case False
    with Cons.prems have "Signal s \<in> set evs" by simp
    then show ?thesis unfolding step
      by (rule Cons.IH) (simp_all add: occur_keeps Cons.prems)
  qed
qed

lemma occur_stays_empty:
  assumes "read_file (snd st) path = []"
    and "\<And>b. e = FsSet path (Some (File b)) \<Longrightarrow> b = []"
  shows "read_file (snd (occur e st)) path = []"
proof (cases e)
  case (Signal s)
  with assms(1) show ?thesis by (cases st) (simp split: handler.splits)
next
  case (FsSet q n)
  show ?thesis
  proof (cases "q = path")
    case True
    with FsSet assms(2) show ?thesis
      by (cases st; cases n) (auto simp: read_file_def split: node.splits)
  next
    case False
    with FsSet assms(1) show ?thesis by (cases st) (simp add: read_file_def)
  qed
qed

lemma occur_all_stays_empty:
  assumes "read_file (snd st) path = []"
    and "\<And>b. FsSet path (Some (File b)) \<in> set evs \<Longrightarrow> b = []"
  shows "read_file (snd (occur_all evs st)) path = []"
  using assms
proof (induction evs arbitrary: st)
  case Nil
  then show ?case by (simp add: occur_all_def)
next
  case (Cons e evs)
  have step: "occur_all (e # evs) st = occur_all evs (occur e st)"
    by (simp add: occur_all_def)
  have "read_file (snd (occur e st)) path = []"
    by (rule occur_stays_empty) (use Cons.prems in auto)
  then show ?case unfolding step
    by (rule Cons.IH) (use Cons.prems in auto)
qed

lemma poll_cancelled:
  assumes "Signal s \<in> set (sched n)"
    and "sigint_handler p = params_sig_handler" and "sigterm_handler p = params_sig_handler"
    and "read_file fs path = []"
    and "\<And>j b. j \<le> n \<Longrightarrow> FsSet path (Some (File b)) \<in> set (sched j) \<Longrightarrow> b = []"
    and "i \<le> n"
  shows "\<exists>p'. poll sched path i [] p fs = Some ([], p') \<and> sleeps p' \<le> sleeps p + (Suc n - i)"
  using assms(2,3,4,6)
proof (induction "n - i" arbitrary: i p fs)
  case 0
  then have i: "i = n" by simp
  show ?case
  proof (cases "params_do_exit p")
    case True
    then show ?thesis by (subst poll.simps) simp
  next
    case False
    obtain p1 fs1 where o: "occur_all (sched i) (p\<lparr>sleeps := Suc (sleeps p)\<rparr>, fs) = (p1, fs1)"
      by (cases "occur_all (sched i) (p\<lparr>sleeps := Suc (sleeps p)\<rparr>, fs)")
    have "params_do_exit (fst (occur_all (sched i) (p\<lparr>sleeps := Suc (sleeps p)\<rparr>, fs)))"
      by (rule occur_all_signal_sets_flag[of s]) (use assms(1) i 0 in simp_all)
    with o have flag: "params_do_exit p1" by simp
    have sl: "sleeps p1 = Suc (sleeps p)"
      using occur_all_keeps[of "sched i" "(p\<lparr>sleeps := Suc (sleeps p)\<rparr>, fs)"] o by simp
    have "poll sched path (Suc i) [] p1 fs1 = Some ([], p1)"
      using flag by (subst poll.simps) simp
    with False 0(4) o have "poll sched path i [] p fs = Some ([], p1)"
      by (subst poll.simps) simp
    with sl i show ?thesis by simp
  qed
next
  case (Suc k)
  then have lt: "i < n" by simp
  show ?case
  proof (cases "params_do_exit p")
    case True
    then show ?thesis by (subst poll.simps) simp
  next
    case False
    obtain p1 fs1 where o: "occur_all (sched i) (p\<lparr>sleeps := Suc (sleeps p)\<rparr>, fs) = (p1, fs1)"
      by (cases "occur_all (sched i) (p\<lparr>sleeps := Suc (sleeps p)\<rparr>, fs)")
    have keep: "sigint_handler p1 = params_sig_handler" "sigterm_handler p1 = params_sig_handler"
      "sleeps p1 = Suc (sleeps p)"
      using occur_all_keeps[of "sched i" "(p\<lparr>sleeps := Suc (sleeps p)\<rparr>, fs)"] o Suc.prems
      by simp_all
    have "read_file (snd (occur_all (sched i) (p\<lparr>sleeps := Suc (sleeps p)\<rparr>, fs))) path = []"
      by (rule occur_all_stays_empty) (use Suc.prems assms(5)[of i] lt in auto)
    with o have empty: "read_file fs1 path = []" by simp
    have "k = n - Suc i" using Suc(2) by simp
    from Suc(1)[OF this keep(1,2) empty] lt
    obtain p' where p': "poll sched path (Suc i) [] p1 fs1 = Some ([], p')"
      "sleeps p' \<le> sleeps p1 + (Suc n - Suc i)"
      by auto
    from False Suc.prems o p'(1) have "poll sched path i [] p fs = Some ([], p')"
      by (subst poll.simps) simp
    with p'(2) keep(3) lt show ?thesis by simp
  qed
qed

lemma poll_example_cancel:
  "Params_get [] sigint_at_2 sample_root proc0 sample_fs ''CarVin'' True
     = Some ([], \<lparr>params_do_exit = True, sigint_handler = SIG_DFL, sigterm_handler = SIG_IGN,
                   sleeps = 3\<rparr>)"
  by (simp add: Params_get_def std_signal_def installed_def occur_all_def poll.simps
        read_file_def proc0_def sample_fs_def sample_root_def sigint_at_2_def)

lemma poll_example_first:
  "Params_get sigterm_first quiet sample_root proc0 sample_fs ''DongleId'' True
     = Some ([], \<lparr>params_do_exit = True, sigint_handler = SIG_DFL, sigterm_handler = SIG_IGN,
                   sleeps = 0\<rparr>)"
  by (simp add: Params_get_def std_signal_def installed_def occur_all_def poll.simps
        read_file_def proc0_def sample_fs_def sample_root_def sigterm_first_def quiet_def)

lemma poll_example_value:
  "Params_get [] set_at_1 sample_root proc0 sample_fs ''CarVin'' True
     = Some (''VIN'', \<lparr>params_do_exit = False, sigint_handler = SIG_DFL,
                       sigterm_handler = SIG_IGN, sleeps = 2\<rparr>)"
  by (simp add: Params_get_def std_signal_def installed_def occur_all_def poll.simps
        read_file_def proc0_def sample_fs_def sample_root_def set_at_1_def)

text \<open>
  C8. Time is counted in polling intervals: \<open>sched n\<close> is what happens during the
  \<open>n\<close>-th pass of the loop, sleep included. When \<open>SIGINT\<close> or \<open>SIGTERM\<close> is raised
  during pass \<open>n\<close> and the key's file is never given non-empty contents, the blocking
  \<open>get\<close> returns, its result is the empty string, and it has slept at most \<open>n + 1\<close>
  times: the sleep in which the signal arrived is the last one. When the signal is
  raised in \<open>pre\<close>, after the handlers are installed and before the flag is tested for
  the first time, the blocking \<open>get\<close> returns the empty string without sleeping at all,
  whatever the file holds. Whenever the blocking
  \<open>get\<close> returns, with a value or cancelled, the handlers of both signals are the ones
  that were installed before the call.
\<close>

theorem blocking_get_cancelled:
  "(Signal s \<in> set (sched n) \<and>
    read_file fs (root @ ''/d/'' @ key) = [] \<and>
    (\<forall>b. FsSet (root @ ''/d/'' @ key) (Some (File b)) \<in> set pre \<longrightarrow> b = []) \<and>
    (\<forall>j b. j \<le> n \<and> FsSet (root @ ''/d/'' @ key) (Some (File b)) \<in> set (sched j) \<longrightarrow> b = [])
    \<longrightarrow> (\<exists>p'. Params_get pre sched root p fs key True = Some ([], p') \<and>
               sleeps p' \<le> sleeps p + Suc n)) \<and>
   (Signal s \<in> set pre
    \<longrightarrow> (\<exists>p'. Params_get pre sched root p fs key True = Some ([], p') \<and>
               sleeps p' = sleeps p)) \<and>
   (\<forall>v p'. Params_get pre sched root p fs key True = Some (v, p')
      \<longrightarrow> sigint_handler p' = sigint_handler p \<and> sigterm_handler p' = sigterm_handler p)"
proof (intro conjI impI allI)
  let ?path = "root @ ''/d/'' @ key"
  let ?p2 = "p\<lparr>params_do_exit := False, sigint_handler := params_sig_handler,
               sigterm_handler := params_sig_handler\<rparr>"
  obtain p3 fs3 where o: "occur_all pre (?p2, fs) = (p3, fs3)"
    by (cases "occur_all pre (?p2, fs)")
  have keep: "sigint_handler p3 = params_sig_handler" "sigterm_handler p3 = params_sig_handler"
    "sleeps p3 = sleeps p"
    using occur_all_keeps[of pre "(?p2, fs)"] o by simp_all
  have unfold: "Params_get pre sched root p fs key True =
      (case poll sched ?path 0 [] p3 fs3 of
         None \<Rightarrow> None
       | Some (val, p4) \<Rightarrow>
           Some (val, p4\<lparr>sigint_handler := sigint_handler p, sigterm_handler := sigterm_handler p\<rparr>))"
    using o by (simp add: Params_get_def std_signal_def installed_def split: option.splits)
  {
    assume h: "Signal s \<in> set (sched n) \<and>
      read_file fs ?path = [] \<and>
      (\<forall>b. FsSet ?path (Some (File b)) \<in> set pre \<longrightarrow> b = []) \<and>
      (\<forall>j b. j \<le> n \<and> FsSet ?path (Some (File b)) \<in> set (sched j) \<longrightarrow> b = [])"
    have "read_file (snd (occur_all pre (?p2, fs))) ?path = []"
      by (rule occur_all_stays_empty) (use h in auto)
    with o have empty: "read_file fs3 ?path = []" by simp
    have "\<exists>p'. poll sched ?path 0 [] p3 fs3 = Some ([], p') \<and> sleeps p' \<le> sleeps p3 + (Suc n - 0)"
      by (rule poll_cancelled[of s]) (use h keep empty in auto)
    then obtain p4 where "poll sched ?path 0 [] p3 fs3 = Some ([], p4)" "sleeps p4 \<le> sleeps p + Suc n"
      using keep(3) by auto
    then show "\<exists>p'. Params_get pre sched root p fs key True = Some ([], p') \<and>
               sleeps p' \<le> sleeps p + Suc n"
      unfolding unfold by simp
  }
  {
    assume h: "Signal s \<in> set pre"
    have "params_do_exit (fst (occur_all pre (?p2, fs)))"
      by (rule occur_all_signal_sets_flag[of s]) (use h in simp_all)
    with o have "params_do_exit p3" by simp
    then have "poll sched ?path 0 [] p3 fs3 = Some ([], p3)"
      by (subst poll.simps) simp
    then show "\<exists>p'. Params_get pre sched root p fs key True = Some ([], p') \<and>
               sleeps p' = sleeps p"
      unfolding unfold using keep(3) by simp
  }
  {
    fix v p'
    assume "Params_get pre sched root p fs key True = Some (v, p')"
    then show "sigint_handler p' = sigint_handler p" "sigterm_handler p' = sigterm_handler p"
      unfolding unfold by (auto split: option.splits)
  }
qed

theorem blocking_get_cancelled_witness:
  "Signal SIGINT \<in> set (sigint_at_2 2) \<and>
   read_file sample_fs (sample_root @ ''/d/'' @ ''CarVin'') = [] \<and>
   (\<exists>p'. Params_get [] sigint_at_2 sample_root proc0 sample_fs ''CarVin'' True = Some ([], p') \<and>
         sleeps p' \<le> sleeps proc0 + 3 \<and>
         sigint_handler p' = sigint_handler proc0 \<and> sigterm_handler p' = sigterm_handler proc0) \<and>
   Signal SIGTERM \<in> set sigterm_first \<and>
   (\<exists>p'. Params_get sigterm_first quiet sample_root proc0 sample_fs ''DongleId'' True
           = Some ([], p') \<and>
         sleeps p' = sleeps proc0 \<and>
         sigint_handler p' = sigint_handler proc0 \<and> sigterm_handler p' = sigterm_handler proc0) \<and>
   Params_get [] set_at_1 sample_root proc0 sample_fs ''CarVin'' True
     = Some (''VIN'', \<lparr>params_do_exit = False, sigint_handler = sigint_handler proc0,
                       sigterm_handler = sigterm_handler proc0, sleeps = 2\<rparr>)"
proof -
  have a: "Signal SIGINT \<in> set (sigint_at_2 2)"
    by (simp add: sigint_at_2_def)
  have b: "read_file sample_fs (sample_root @ ''/d/'' @ ''CarVin'') = []"
    by (simp add: read_file_def proc0_def sample_fs_def sample_root_def)
  have c: "\<forall>b. FsSet (sample_root @ ''/d/'' @ ''CarVin'') (Some (File b)) \<in> set [] \<longrightarrow> b = []"
    by simp
  have d: "\<forall>j b. j \<le> 2 \<and> FsSet (sample_root @ ''/d/'' @ ''CarVin'') (Some (File b))
             \<in> set (sigint_at_2 j) \<longrightarrow> b = []"
    by (simp add: sigint_at_2_def)
  note t = blocking_get_cancelled[where s = SIGINT and sched = sigint_at_2 and n = 2
      and fs = sample_fs and root = sample_root and key = "''CarVin''" and pre = "[]"
      and p = proc0]
  from t a b c d obtain p' where
    p': "Params_get [] sigint_at_2 sample_root proc0 sample_fs ''CarVin'' True = Some ([], p')"
      "sleeps p' \<le> sleeps proc0 + Suc 2"
    by blast
  from t p'(1) have h: "sigint_handler p' = sigint_handler proc0 \<and>
      sigterm_handler p' = sigterm_handler proc0"
    by blast
  have e: "Signal SIGTERM \<in> set sigterm_first"
    by (simp add: sigterm_first_def)
  note u = blocking_get_cancelled[where s = SIGTERM and sched = quiet and pre = sigterm_first
      and fs = sample_fs and root = sample_root and key = "''DongleId''" and p = proc0]
  from u e obtain q' where
    q': "Params_get sigterm_first quiet sample_root proc0 sample_fs ''DongleId'' True
           = Some ([], q')"
      "sleeps q' = sleeps proc0"
    by blast
  from u q'(1) have k: "sigint_handler q' = sigint_handler proc0 \<and>
      sigterm_handler q' = sigterm_handler proc0"
    by blast
  have first: "\<exists>p'. Params_get [] sigint_at_2 sample_root proc0 sample_fs ''CarVin'' True
           = Some ([], p') \<and>
         sleeps p' \<le> sleeps proc0 + 3 \<and>
         sigint_handler p' = sigint_handler proc0 \<and> sigterm_handler p' = sigterm_handler proc0"
    using p' h by auto
  have second: "\<exists>p'. Params_get sigterm_first quiet sample_root proc0 sample_fs ''DongleId'' True
           = Some ([], p') \<and>
         sleeps p' = sleeps proc0 \<and>
         sigint_handler p' = sigint_handler proc0 \<and> sigterm_handler p' = sigterm_handler proc0"
    using q' k by auto
  have third: "Params_get [] set_at_1 sample_root proc0 sample_fs ''CarVin'' True
     = Some (''VIN'', \<lparr>params_do_exit = False, sigint_handler = sigint_handler proc0,
                       sigterm_handler = sigterm_handler proc0, sleeps = 2\<rparr>)"
    using poll_example_value by (simp add: proc0_def)
  from a b e first second third show ?thesis by blast
qed

section \<open>Claims about the directory bootstrap\<close>

lemma ensure_noop:
  assumes "file_exists fs root" and "file_exists fs (root @ ''/d'')"
  shows "ensure_params_path env root fs = (Inr (), fs)"
  using assms by (simp add: ensure_params_path_def create_params_path_def)

lemma absolute_root_example:
  "fst (ensure_params_path boot_ok sample_root empty_fs) = Inr () \<and>
   file_exists (snd (ensure_params_path boot_ok sample_root empty_fs)) (sample_root @ ''/d'') \<and>
   ensure_params_path boot_again sample_root
     (snd (ensure_params_path boot_ok sample_root empty_fs))
     = (Inr (), snd (ensure_params_path boot_ok sample_root empty_fs))"
proof -
  let ?fs1 = "[''/data'' \<mapsto> Dir, ''/data/params'' \<mapsto> Dir, ''/data/params/.tmp_k3Wq9z'' \<mapsto> Dir,
               ''/data/params/d'' \<mapsto> Symlink ''/data/params/.tmp_k3Wq9z'']"
  have a: "ensure_params_path boot_ok sample_root empty_fs = (Inr (), ?fs1)"
    by (simp add: ensure_params_path_def create_params_path_def publish_key_path_def
        create_directories_def make_dir_def dir_prefixes_def sys_mkdtemp_def sys_mktemp_def
        sys_symlink_def sys_rename_def fill_template_def file_exists_def
        leads_to_node_numeral boot_ok_def sample_root_def empty_fs_def)
  have c: "file_exists ?fs1 sample_root" "file_exists ?fs1 (sample_root @ ''/d'')"
    by (simp_all add: file_exists_def leads_to_node_numeral link_target_def sample_root_def)
  from ensure_noop[OF c, of boot_again] a c show ?thesis by simp
qed

text \<open>
  C9. The claim is that bootstrap is idempotent: a call that finds \<open>root/d\<close> in place
  leaves the layout as it is, so that repeated calls are equivalent to one successful
  call. With the relative root \<^verbatim>\<open>params\<close> the code does not do that. The first call
  succeeds and publishes \<^verbatim>\<open>params/d\<close> as a link to the string
  \<^verbatim>\<open>params/.tmp_k3Wq9z\<close>, which the kernel reads from the link's own directory, so the
  link leads nowhere and \<open>file_exists\<close> is false for it. The second call therefore
  makes another temporary directory and renames a new link over \<^verbatim>\<open>params/d\<close>: it
  succeeds and the layout has changed.
\<close>

theorem ensure_relative_root_repeats:
  "fst (ensure_params_path boot_ok relative_root empty_fs) = Inr () \<and>
   snd (ensure_params_path boot_ok relative_root empty_fs) ''params/d''
     = Some (Symlink ''params/.tmp_k3Wq9z'') \<and>
   link_target ''params/d'' ''params/.tmp_k3Wq9z'' = ''params/params/.tmp_k3Wq9z'' \<and>
   \<not> file_exists (snd (ensure_params_path boot_ok relative_root empty_fs)) ''params/d'' \<and>
   fst (ensure_params_path boot_again relative_root
          (snd (ensure_params_path boot_ok relative_root empty_fs))) = Inr () \<and>
   snd (ensure_params_path boot_ok relative_root empty_fs) ''params/.tmp_Zz81aa'' = None \<and>
   snd (ensure_params_path boot_again relative_root
          (snd (ensure_params_path boot_ok relative_root empty_fs))) ''params/.tmp_Zz81aa''
     = Some Dir \<and>
   snd (ensure_params_path boot_again relative_root
          (snd (ensure_params_path boot_ok relative_root empty_fs))) ''params/d''
     = Some (Symlink ''params/.tmp_Zz81aa'')"
proof -
  let ?fs1 = "[''params'' \<mapsto> Dir, ''params/.tmp_k3Wq9z'' \<mapsto> Dir,
               ''params/d'' \<mapsto> Symlink ''params/.tmp_k3Wq9z'']"
  have a: "ensure_params_path boot_ok relative_root empty_fs = (Inr (), ?fs1)"
    by (simp add: ensure_params_path_def create_params_path_def publish_key_path_def
        create_directories_def make_dir_def dir_prefixes_def sys_mkdtemp_def sys_mktemp_def
        sys_symlink_def sys_rename_def fill_template_def file_exists_def
        leads_to_node_numeral boot_ok_def relative_root_def empty_fs_def)
  have t: "link_target ''params/d'' ''params/.tmp_k3Wq9z'' = ''params/params/.tmp_k3Wq9z''"
    by (simp add: link_target_def)
  have f: "file_exists ?fs1 ''params''" "\<not> file_exists ?fs1 ''params/d''"
    by (simp_all add: file_exists_def leads_to_node_numeral t)
  have b: "ensure_params_path boot_again relative_root ?fs1 =
      (Inr (), [''params'' \<mapsto> Dir, ''params/.tmp_k3Wq9z'' \<mapsto> Dir,
                ''params/.tmp_Zz81aa'' \<mapsto> Dir,
                ''params/d'' \<mapsto> Symlink ''params/.tmp_Zz81aa''])"
    using f
    by (simp add: ensure_params_path_def create_params_path_def publish_key_path_def
        sys_mkdtemp_def sys_mktemp_def sys_symlink_def sys_rename_def fill_template_def
        boot_again_def relative_root_def)
  from a b t f show ?thesis by simp
qed

end
